theory Spec2Isabelle
  imports Complex_Main "HOL-Library.AList"
begin

section \<open>Data model: cells, columns, data frames\<close>

text \<open>
  The notebook's only function with a contract is \<open>process_live_data_and_cluster\<close>. It works
  on a pandas data frame: a row index and named columns of equal length, kept in the order
  in which they were added. A cell is one of
  the values the frame holds in the columns the function touches. Floating-point cells are
  modelled as exact real numbers (\<open>FloatV\<close>) together with the missing value \<open>NaNV\<close>;
  arithmetic on them is exact. The one arithmetic step of the function, rounding to two
  decimals, is given a second time with binary64 rounding after each operation
  (\<open>np_round64\<close>). \<open>TimestampV y m d\<close> is a calendar date, \<open>NaTV\<close> the missing
  date.
\<close>

datatype cell =
    FloatV real
  | NaNV
  | IntV int
  | StrV string
  | BoolV bool
  | TimestampV int int int
  | NaTV

type_synonym column = "cell list"

record dataframe =
  df_index :: "int list"
  df_columns :: "(string \<times> column) list"

text \<open>pandas keeps every column as long as the index; column names are not repeated.\<close>

definition wf_df :: "dataframe \<Rightarrow> bool" where
  "wf_df d =
     (distinct (map fst (df_columns d)) \<and>
      list_all (\<lambda>nc. length (snd nc) = length (df_index d)) (df_columns d))"

definition get_column :: "dataframe \<Rightarrow> string \<Rightarrow> column option" where
  "get_column d name = map_of (df_columns d) name"

datatype error =
    KeyError string
  | ValueError
  | TypeError
  | AttributeError
  | LibraryError string

text \<open>Sequencing of fallible steps: the first exception raised propagates.\<close>

definition bind_e :: "error + 'a \<Rightarrow> ('a \<Rightarrow> error + 'b) \<Rightarrow> error + 'b" where
  "bind_e m f = (case m of Inl e \<Rightarrow> Inl e | Inr x \<Rightarrow> f x)"

fun sequence_e :: "(error + 'a) list \<Rightarrow> error + 'a list" where
  "sequence_e [] = Inr []"
| "sequence_e (m # ms) =
     (case m of
        Inl e \<Rightarrow> Inl e
      | Inr x \<Rightarrow> (case sequence_e ms of Inl e \<Rightarrow> Inl e | Inr xs \<Rightarrow> Inr (x # xs)))"

subsection \<open>Frame operations used by the function\<close>

text \<open>\<open>df[name]\<close>: KeyError when the column is absent.\<close>

definition getitem :: "dataframe \<Rightarrow> string \<Rightarrow> error + column" where
  "getitem d name = (case get_column d name of None \<Rightarrow> Inl (KeyError name) | Some col \<Rightarrow> Inr col)"

text \<open>
  \<open>df[name] = values\<close>: an existing column is replaced where it stands, a new one is
  appended; ValueError when the length differs from the index.
\<close>

definition setitem :: "dataframe \<Rightarrow> string \<Rightarrow> column \<Rightarrow> error + dataframe" where
  "setitem d name col =
     (if length col = length (df_index d)
      then Inr (d\<lparr>df_columns := AList.update name col (df_columns d)\<rparr>)
      else Inl ValueError)"

text \<open>\<open>df.drop(columns=names, inplace=True)\<close>: KeyError when a label is absent.\<close>

definition drop_columns :: "dataframe \<Rightarrow> string list \<Rightarrow> error + dataframe" where
  "drop_columns d names =
     (case filter (\<lambda>n. get_column d n = None) names of
        [] \<Rightarrow> Inr (d\<lparr>df_columns := filter (\<lambda>nc. fst nc \<notin> set names) (df_columns d)\<rparr>)
      | n # _ \<Rightarrow> Inl (KeyError n))"

text \<open>\<open>df[[a, b]]\<close> read as the rows of a two-column value matrix.\<close>

definition getitem2 :: "dataframe \<Rightarrow> string \<Rightarrow> string \<Rightarrow> error + (cell \<times> cell) list" where
  "getitem2 d a b =
     bind_e (getitem d a) (\<lambda>ca. bind_e (getitem d b) (\<lambda>cb. Inr (zip ca cb)))"

subsection \<open>Series operations\<close>

text \<open>\<open>Series.replace(dict)\<close>: a cell equal to a key becomes the value, others stay.\<close>

definition series_replace :: "(cell \<times> cell) list \<Rightarrow> column \<Rightarrow> column" where
  "series_replace dict col = map (\<lambda>c. case map_of dict c of None \<Rightarrow> c | Some v \<Rightarrow> v) col"

text \<open>
  \<open>Series.round(decimals)\<close> is numpy's rounding: multiply by \<open>10 ^ decimals\<close>, round to
  the nearest integer with ties to even, divide again. \<open>np_round\<close> is this computation
  in exact arithmetic. numpy computes the product and the quotient in binary64, where a
  product next to a tie can fall on its other side (32.035 gives 32.03 there and 32.04
  exactly); \<open>np_round64\<close> below is the binary64 computation, and away from ties its
  result is the binary64 number nearest to the exact one (\<open>np_round64_away_from_ties\<close>).
  Integer cells and missing values are returned as they are. A coordinate that is not a
  number is outside the input schema; the model raises TypeError for it, as pandas does for
  a column of strings.
\<close>

definition rint :: "real \<Rightarrow> int" where
  "rint x =
     (let f = \<lfloor>x\<rfloor>; d = x - of_int f
      in if d < 1 / 2 then f
         else if 1 / 2 < d then f + 1
         else if even f then f else f + 1)"

definition np_round :: "nat \<Rightarrow> real \<Rightarrow> real" where
  "np_round decimals x = of_int (rint (x * 10 ^ decimals)) / 10 ^ decimals"

fun round_cell :: "nat \<Rightarrow> cell \<Rightarrow> error + cell" where
  "round_cell decimals (FloatV x) = Inr (FloatV (np_round decimals x))"
| "round_cell decimals NaNV = Inr NaNV"
| "round_cell decimals (IntV i) = Inr (IntV i)"
| "round_cell decimals c = Inl TypeError"

definition series_round :: "nat \<Rightarrow> column \<Rightarrow> error + column" where
  "series_round decimals col = sequence_e (map (round_cell decimals) col)"

text \<open>\<open>Series.apply(f)\<close>.\<close>

definition series_apply :: "(cell \<Rightarrow> cell) \<Rightarrow> column \<Rightarrow> column" where
  "series_apply f col = map f col"

subsection \<open>The \<open>.dt\<close> accessor: month and ISO week of the year\<close>

definition is_leap :: "int \<Rightarrow> bool" where
  "is_leap y = (y mod 4 = 0 \<and> (y mod 100 \<noteq> 0 \<or> y mod 400 = 0))"

definition days_in_month :: "int \<Rightarrow> int \<Rightarrow> int" where
  "days_in_month y m =
     (if m = 2 then (if is_leap y then 29 else 28)
      else if m = 4 \<or> m = 6 \<or> m = 9 \<or> m = 11 then 30 else 31)"

definition days_before_year :: "int \<Rightarrow> int" where
  "days_before_year y = (y - 1) * 365 + (y - 1) div 4 - (y - 1) div 100 + (y - 1) div 400"

definition days_before_month :: "int \<Rightarrow> int \<Rightarrow> int" where
  "days_before_month y m = sum_list (map (days_in_month y) [1..m - 1])"

definition ymd2ord :: "int \<Rightarrow> int \<Rightarrow> int \<Rightarrow> int" where
  "ymd2ord y m d = days_before_year y + days_before_month y m + d"

definition isoweek1monday :: "int \<Rightarrow> int" where
  "isoweek1monday y =
     (let firstday = ymd2ord y 1 1;
          firstweekday = (firstday + 6) mod 7;
          week1monday = firstday - firstweekday
      in if 3 < firstweekday then week1monday + 7 else week1monday)"

definition weekofyear :: "int \<Rightarrow> int \<Rightarrow> int \<Rightarrow> int" where
  "weekofyear y m d =
     (let today = ymd2ord y m d;
          week = (today - isoweek1monday y) div 7
      in if week < 0 then (today - isoweek1monday (y - 1)) div 7 + 1
         else if 52 \<le> week \<and> isoweek1monday (y + 1) \<le> today then 1
         else week + 1)"

text \<open>
  \<open>.dt\<close> exists on datetime columns only: every cell a timestamp or the missing date.
  A field of a column without missing dates is an integer column; with a missing date in
  the column it is a floating-point column, the field of the missing date being the
  missing number.
\<close>

fun is_datetime :: "cell \<Rightarrow> bool" where
  "is_datetime (TimestampV y m d) = True"
| "is_datetime NaTV = True"
| "is_datetime c = False"

definition month :: "int \<Rightarrow> int \<Rightarrow> int \<Rightarrow> int" where
  "month y m d = m"

fun field_int :: "(int \<Rightarrow> int \<Rightarrow> int \<Rightarrow> int) \<Rightarrow> cell \<Rightarrow> cell" where
  "field_int f (TimestampV y m d) = IntV (f y m d)"
| "field_int f c = NaNV"

fun field_float :: "(int \<Rightarrow> int \<Rightarrow> int \<Rightarrow> int) \<Rightarrow> cell \<Rightarrow> cell" where
  "field_float f (TimestampV y m d) = FloatV (of_int (f y m d))"
| "field_float f c = NaNV"

definition dt_values :: "(int \<Rightarrow> int \<Rightarrow> int \<Rightarrow> int) \<Rightarrow> column \<Rightarrow> column" where
  "dt_values f col = (if NaTV \<in> set col then map (field_float f) col else map (field_int f) col)"

definition dt_month :: "column \<Rightarrow> error + column" where
  "dt_month col = (if list_all is_datetime col then Inr (dt_values month col) else Inl AttributeError)"

definition dt_weekofyear :: "column \<Rightarrow> error + column" where
  "dt_weekofyear col =
     (if list_all is_datetime col then Inr (dt_values weekofyear col) else Inl AttributeError)"

section \<open>The external libraries\<close>

text \<open>
  Two calls leave the notebook: \<open>pd.to_datetime\<close>, which parses the date column, and
  \<open>hdbscan.HDBSCAN(...).fit(...).labels_\<close>, which clusters the coordinate rows and
  returns one integer label per row, \<open>-1\<close> for noise. Neither is code of the notebook,
  so both are parameters of the model; either may raise.
\<close>

record hdbscan_params =
  min_cluster_size :: nat
  min_samples :: nat
  gen_min_span_tree :: bool

record library =
  to_datetime :: "column \<Rightarrow> error + column"
  hdbscan_fit :: "hdbscan_params \<Rightarrow> (cell \<times> cell) list \<Rightarrow> error + int list"

section \<open>The function\<close>

text \<open>
  Data frames are mutable objects. The heap is the list of the frames allocated so far and
  a reference is a position in it. \<open>original_df.copy()\<close> allocates a new frame; each
  later statement of the body updates the frame \<open>df\<close> refers to, in place.
\<close>

type_synonym ref = nat
type_synonym heap = "dataframe list"
type_synonym stmt = "dataframe \<Rightarrow> error + dataframe"

definition df_copy :: "ref \<Rightarrow> heap \<Rightarrow> ref \<times> heap" where
  "df_copy r h = (length h, h @ [h ! r])"

fun exec :: "stmt list \<Rightarrow> ref \<Rightarrow> heap \<Rightarrow> error option \<times> heap" where
  "exec [] df h = (None, h)"
| "exec (s # ss) df h =
     (case s (h ! df) of
        Inl e \<Rightarrow> (Some e, h)
      | Inr d \<Rightarrow> exec ss df (h[df := d]))"

text \<open>\<open>df['acq_date'] = pd.to_datetime(df['acq_date'])\<close>\<close>

definition stmt_to_datetime :: "library \<Rightarrow> stmt" where
  "stmt_to_datetime lib d =
     bind_e (getitem d ''acq_date'') (\<lambda>c.
     bind_e (to_datetime lib c) (\<lambda>c'. setitem d ''acq_date'' c'))"

text \<open>\<open>df['satellite'] = df['satellite'].replace({'T':'Terra', 'A': 'Aqua'})\<close>\<close>

definition satellite_names :: "(cell \<times> cell) list" where
  "satellite_names = [(StrV ''T'', StrV ''Terra''), (StrV ''A'', StrV ''Aqua'')]"

definition stmt_satellite :: stmt where
  "stmt_satellite d =
     bind_e (getitem d ''satellite'') (\<lambda>c.
     setitem d ''satellite'' (series_replace satellite_names c))"

text \<open>\<open>df[name] = df[name].round(2)\<close>, for latitude and for longitude\<close>

definition stmt_round :: "string \<Rightarrow> stmt" where
  "stmt_round name d =
     bind_e (getitem d name) (\<lambda>c.
     bind_e (series_round 2 c) (\<lambda>c'. setitem d name c'))"

text \<open>\<open>df['month'] = df['acq_date'].dt.month\<close>\<close>

definition stmt_month :: stmt where
  "stmt_month d =
     bind_e (getitem d ''acq_date'') (\<lambda>c.
     bind_e (dt_month c) (\<lambda>c'. setitem d ''month'' c'))"

text \<open>\<open>df['week'] = df['acq_date'].dt.weekofyear\<close>\<close>

definition stmt_week :: stmt where
  "stmt_week d =
     bind_e (getitem d ''acq_date'') (\<lambda>c.
     bind_e (dt_weekofyear c) (\<lambda>c'. setitem d ''week'' c'))"

text \<open>\<open>df.drop(columns=['acq_date', 'acq_time'], inplace=True)\<close>\<close>

definition stmt_drop :: stmt where
  "stmt_drop d = drop_columns d [''acq_date'', ''acq_time'']"

text \<open>
  \<open>clusterer = hdbscan.HDBSCAN(min_cluster_size=50, min_samples=20, gen_min_span_tree=True)\<close>
  and \<open>df['clusters'] = clusterer.fit(df[['latitude','longitude']]).labels_\<close>
\<close>

definition clusterer :: hdbscan_params where
  "clusterer = \<lparr>min_cluster_size = 50, min_samples = 20, gen_min_span_tree = True\<rparr>"

definition stmt_fit :: "library \<Rightarrow> stmt" where
  "stmt_fit lib d =
     bind_e (getitem2 d ''latitude'' ''longitude'') (\<lambda>pts.
     bind_e (hdbscan_fit lib clusterer pts) (\<lambda>labels.
     setitem d ''clusters'' (map IntV labels)))"

text \<open>\<open>df['clusters'] = df['clusters'].apply(lambda x: False if x == -1 else True)\<close>\<close>

fun eq_int :: "cell \<Rightarrow> int \<Rightarrow> bool" where
  "eq_int (IntV i) k = (i = k)"
| "eq_int (FloatV x) k = (x = of_int k)"
| "eq_int (BoolV b) k = ((if b then 1 else 0) = k)"
| "eq_int c k = False"

definition binary_label :: "cell \<Rightarrow> cell" where
  "binary_label x = (if eq_int x (- 1) then BoolV False else BoolV True)"

definition stmt_binary :: stmt where
  "stmt_binary d =
     bind_e (getitem d ''clusters'') (\<lambda>c.
     setitem d ''clusters'' (series_apply binary_label c))"

definition body :: "library \<Rightarrow> stmt list" where
  "body lib =
     [stmt_to_datetime lib,
      stmt_satellite,
      stmt_round ''latitude'',
      stmt_round ''longitude'',
      stmt_month,
      stmt_week,
      stmt_drop,
      stmt_fit lib,
      stmt_binary]"

text \<open>
  The call: \<open>df = original_df.copy()\<close>, the body on \<open>df\<close>, \<open>return df\<close>. The result is
  the exception raised or the reference returned, with the heap the call leaves behind.
\<close>

definition process_live_data_and_cluster :: "library \<Rightarrow> ref \<Rightarrow> heap \<Rightarrow> (error + ref) \<times> heap" where
  "process_live_data_and_cluster lib original_df h =
     (case df_copy original_df h of
        (df, h1) \<Rightarrow>
          (case exec (body lib) df h1 of
             (Some e, h2) \<Rightarrow> (Inl e, h2)
           | (None, h2) \<Rightarrow> (Inr df, h2)))"

section \<open>Notions used to state the properties\<close>

text \<open>The body as a function of the frame \<open>df\<close> refers to, without the heap.\<close>

fun run :: "stmt list \<Rightarrow> dataframe \<Rightarrow> error + dataframe" where
  "run [] d = Inr d"
| "run (s # ss) d = bind_e (s d) (run ss)"

text \<open>
  The value matrix the clustering step is given: the latitude and longitude columns of the
  input, each rounded to two decimals, row by row.
\<close>

definition rounded_coordinates :: "dataframe \<Rightarrow> error + (cell \<times> cell) list" where
  "rounded_coordinates d =
     bind_e (getitem d ''latitude'') (\<lambda>lats.
     bind_e (series_round 2 lats) (\<lambda>lats'.
     bind_e (getitem d ''longitude'') (\<lambda>lons.
     bind_e (series_round 2 lons) (\<lambda>lons'. Inr (zip lats' lons')))))"

text \<open>The date column as the parser returns it.\<close>

definition parsed_dates :: "library \<Rightarrow> dataframe \<Rightarrow> error + column" where
  "parsed_dates lib d = bind_e (getitem d ''acq_date'') (to_datetime lib)"

text \<open>
  A frame the function can process with a given library: it is a well-formed frame with the
  five columns the function reads, the date parser returns a datetime column of the frame's
  length, the coordinates are numeric, and the clustering returns one label per row.
\<close>

definition accepts :: "library \<Rightarrow> dataframe \<Rightarrow> bool" where
  "accepts lib d =
     (wf_df d \<and>
      get_column d ''satellite'' \<noteq> None \<and>
      get_column d ''acq_time'' \<noteq> None \<and>
      (case parsed_dates lib d of
         Inl e \<Rightarrow> False
       | Inr dts \<Rightarrow> length dts = length (df_index d) \<and> list_all is_datetime dts) \<and>
      (case bind_e (rounded_coordinates d) (hdbscan_fit lib clusterer) of
         Inl e \<Rightarrow> False
       | Inr labels \<Rightarrow> length labels = length (df_index d)))"





text \<open>The model features the function neither reads nor writes.\<close>

definition pass_through :: "string list" where
  "pass_through =
     [''daynight'', ''brightness'', ''track'', ''scan'', ''bright_t31'', ''frp'', ''confidence'']"

text \<open>The cell of a named column in a given row.\<close>

definition cell_at :: "dataframe \<Rightarrow> string \<Rightarrow> nat \<Rightarrow> cell option" where
  "cell_at d name i =
     (case get_column d name of
        None \<Rightarrow> None
      | Some c \<Rightarrow> if i < length c then Some (c ! i) else None)"

text \<open>
  Binary64 arithmetic: the result of an operation is the exact result rounded to the nearest
  number with a 53-bit significand, ties to even. The exponent range is not bounded (no
  overflow, no subnormal numbers). \<open>np_round64\<close> is the rounding of
  \<open>Series.round\<close> with each of its two operations rounded this way; the integer
  produced in between is represented exactly.
\<close>

definition fl64 :: "real \<Rightarrow> real" where
  "fl64 x =
     (if x = 0 then 0
      else (let e = \<lfloor>log 2 \<bar>x\<bar>\<rfloor> - 52
            in of_int (rint (x / 2 powr of_int e)) * 2 powr of_int e))"

definition np_round64 :: "nat \<Rightarrow> real \<Rightarrow> real" where
  "np_round64 decimals x =
     fl64 (of_int (rint (fl64 (x * 10 ^ decimals))) / 10 ^ decimals)"

section \<open>An example library and an example batch\<close>

text \<open>
  For concrete evaluation: a date parser for the \<open>YYYY-MM-DD\<close> format of the live feed,
  and a toy density clustering that puts a point in cluster \<open>0\<close> when at least
  \<open>min_cluster_size\<close> points of the batch share its coordinates.
\<close>

definition digit_val :: "char \<Rightarrow> int option" where
  "digit_val c =
     map_of [(CHR ''0'', 0), (CHR ''1'', 1), (CHR ''2'', 2), (CHR ''3'', 3), (CHR ''4'', 4),
             (CHR ''5'', 5), (CHR ''6'', 6), (CHR ''7'', 7), (CHR ''8'', 8), (CHR ''9'', 9)] c"

fun digits_val :: "int \<Rightarrow> string \<Rightarrow> int option" where
  "digits_val acc [] = Some acc"
| "digits_val acc (c # cs) =
     (case digit_val c of None \<Rightarrow> None | Some v \<Rightarrow> digits_val (10 * acc + v) cs)"

definition parse_iso_date :: "string \<Rightarrow> cell option" where
  "parse_iso_date s =
     (if length s = 10 \<and> s ! 4 = CHR ''-'' \<and> s ! 7 = CHR ''-''
      then (case (digits_val 0 (take 4 s), digits_val 0 (take 2 (drop 5 s)), digits_val 0 (drop 8 s)) of
              (Some y, Some m, Some d) \<Rightarrow>
                if 1 \<le> m \<and> m \<le> 12 \<and> 1 \<le> d \<and> d \<le> days_in_month y m
                then Some (TimestampV y m d) else None
            | _ \<Rightarrow> None)
      else None)"

fun iso_cell :: "cell \<Rightarrow> error + cell" where
  "iso_cell (StrV s) =
     (case parse_iso_date s of None \<Rightarrow> Inl (LibraryError ''to_datetime'') | Some t \<Rightarrow> Inr t)"
| "iso_cell (TimestampV y m d) = Inr (TimestampV y m d)"
| "iso_cell NaTV = Inr NaTV"
| "iso_cell NaNV = Inr NaTV"
| "iso_cell c = Inl (LibraryError ''to_datetime'')"

definition iso_to_datetime :: "column \<Rightarrow> error + column" where
  "iso_to_datetime col = sequence_e (map iso_cell col)"

definition colocated_fit :: "hdbscan_params \<Rightarrow> (cell \<times> cell) list \<Rightarrow> error + int list" where
  "colocated_fit p pts =
     Inr (map (\<lambda>q. if min_cluster_size p \<le> count_list pts q then 0 else - 1) pts)"

definition example_library :: library where
  "example_library = \<lparr>to_datetime = iso_to_datetime, hdbscan_fit = colocated_fit\<rparr>"

definition live_batch :: dataframe where
  "live_batch =
     \<lparr>df_index = [0, 1, 2],
      df_columns =
        [(''latitude'', [FloatV 34.567, FloatV 34.571, FloatV 19.405]),
         (''longitude'', [FloatV (- 118.123), FloatV (- 118.118), FloatV (- 155.283)]),
         (''brightness'', [FloatV 310.5, FloatV 325.1, FloatV 301.2]),
         (''scan'', [FloatV 1.1, FloatV 1.1, FloatV 2.3]),
         (''track'', [FloatV 1.0, FloatV 1.0, FloatV 1.5]),
         (''acq_date'', [StrV ''2020-01-05'', StrV ''2020-01-05'', StrV ''2021-01-03'']),
         (''acq_time'', [StrV ''1200'', StrV ''1200'', StrV ''2145'']),
         (''satellite'', [StrV ''T'', StrV ''A'', StrV ''N'']),
         (''confidence'', [IntV 80, IntV 92, IntV 45]),
         (''bright_t31'', [FloatV 290.3, FloatV 295.8, FloatV 288.0]),
         (''frp'', [FloatV 12.4, FloatV 30.9, FloatV 5.5]),
         (''daynight'', [StrV ''D'', StrV ''D'', StrV ''N''])]\<rparr>"

definition live_batch_out :: dataframe where
  "live_batch_out =
     \<lparr>df_index = [0, 1, 2],
      df_columns =
        [(''latitude'', [FloatV 34.57, FloatV 34.57, FloatV 19.4]),
         (''longitude'', [FloatV (- 118.12), FloatV (- 118.12), FloatV (- 155.28)]),
         (''brightness'', [FloatV 310.5, FloatV 325.1, FloatV 301.2]),
         (''scan'', [FloatV 1.1, FloatV 1.1, FloatV 2.3]),
         (''track'', [FloatV 1.0, FloatV 1.0, FloatV 1.5]),
         (''satellite'', [StrV ''Terra'', StrV ''Aqua'', StrV ''N'']),
         (''confidence'', [IntV 80, IntV 92, IntV 45]),
         (''bright_t31'', [FloatV 290.3, FloatV 295.8, FloatV 288.0]),
         (''frp'', [FloatV 12.4, FloatV 30.9, FloatV 5.5]),
         (''daynight'', [StrV ''D'', StrV ''D'', StrV ''N'']),
         (''month'', [IntV 1, IntV 1, IntV 1]),
         (''week'', [IntV 1, IntV 1, IntV 53]),
         (''clusters'', [BoolV False, BoolV False, BoolV False])]\<rparr>"

text \<open>A batch of fifty detections at one place and one elsewhere.\<close>

definition dense_batch :: dataframe where
  "dense_batch =
     \<lparr>df_index = map int [0..<51],
      df_columns =
        [(''latitude'', replicate 50 (FloatV 34.567) @ [FloatV 19.405]),
         (''longitude'', replicate 50 (FloatV (- 118.123)) @ [FloatV (- 155.283)]),
         (''acq_date'', replicate 51 (StrV ''2020-01-05'')),
         (''acq_time'', replicate 51 (StrV ''1200'')),
         (''satellite'', replicate 51 (StrV ''T''))]\<rparr>"




definition other_batch :: dataframe where
  "other_batch =
     \<lparr>df_index = [7, 8, 9],
      df_columns =
        [(''satellite'', [StrV ''A'', StrV ''A'', StrV ''T'']),
         (''acq_time'', [IntV 30, IntV 45, IntV 100]),
         (''acq_date'', [StrV ''2019-12-30'', NaNV, StrV ''2016-01-01'']),
         (''longitude'', [FloatV (- 118.123), FloatV (- 118.118), FloatV (- 155.283)]),
         (''latitude'', [FloatV 34.567, FloatV 34.571, FloatV 19.405])]\<rparr>"

definition other_batch_out :: dataframe where
  "other_batch_out =
     \<lparr>df_index = [7, 8, 9],
      df_columns =
        [(''satellite'', [StrV ''Aqua'', StrV ''Aqua'', StrV ''Terra'']),
         (''longitude'', [FloatV (- 118.12), FloatV (- 118.12), FloatV (- 155.28)]),
         (''latitude'', [FloatV 34.57, FloatV 34.57, FloatV 19.4]),
         (''month'', [FloatV 12, NaNV, FloatV 1]),
         (''week'', [FloatV 1, NaNV, FloatV 53]),
         (''clusters'', [BoolV False, BoolV False, BoolV False])]\<rparr>"

section \<open>Lemmas about the operations\<close>

lemma bind_e_Inr: "bind_e m f = Inr y \<longleftrightarrow> (\<exists>x. m = Inr x \<and> f x = Inr y)"
  by (cases m) (simp_all add: bind_e_def)

lemma bind_e_simps [simp]: "bind_e (Inl e) f = Inl e" "bind_e (Inr x) f = f x"
  by (simp_all add: bind_e_def)

lemma getitem_Inr: "getitem d name = Inr c \<longleftrightarrow> get_column d name = Some c"
  by (simp add: getitem_def split: option.splits)

lemma get_column_update:
  "get_column (d\<lparr>df_columns := AList.update name c (df_columns d)\<rparr>) = (get_column d)(name \<mapsto> c)"
  by (simp add: get_column_def fun_eq_iff update_conv')

lemma map_of_filter_names:
  "map_of (filter (\<lambda>nc. fst nc \<notin> S) al) k = (if k \<in> S then None else map_of al k)"
  by (induction al) auto

lemma get_column_drop:
  "get_column (d\<lparr>df_columns := filter (\<lambda>nc. fst nc \<notin> S) (df_columns d)\<rparr>) = get_column d |` (- S)"
  by (simp add: get_column_def fun_eq_iff map_of_filter_names restrict_map_def)

lemma setitem_Inr:
  "setitem d name c = Inr d' \<longleftrightarrow>
     (length c = length (df_index d) \<and> d' = d\<lparr>df_columns := AList.update name c (df_columns d)\<rparr>)"
  by (auto simp: setitem_def)

lemma setitem_effect:
  assumes "setitem d name c = Inr d'"
  shows "length c = length (df_index d)" "df_index d' = df_index d"
    "get_column d' = (get_column d)(name \<mapsto> c)"
  using assms by (auto simp: setitem_Inr get_column_update)

lemma drop_columns_effect:
  assumes "drop_columns d names = Inr d'"
  shows "\<forall>n \<in> set names. get_column d n \<noteq> None" "df_index d' = df_index d"
    "get_column d' = get_column d |` (- set names)"
  using assms by (auto simp: drop_columns_def filter_empty_conv get_column_drop split: list.splits)

lemma sequence_e_map_Inr: "sequence_e (map Inr xs) = Inr xs"
  by (induction xs) simp_all

lemma sequence_e_Inr: "sequence_e ms = Inr xs \<longleftrightarrow> ms = map Inr xs"
proof
  show "sequence_e ms = Inr xs \<Longrightarrow> ms = map Inr xs"
    by (induction ms arbitrary: xs) (auto split: sum.splits)
  show "ms = map Inr xs \<Longrightarrow> sequence_e ms = Inr xs"
    by (simp add: sequence_e_map_Inr)
qed

lemma series_round_length: "series_round n c = Inr c' \<Longrightarrow> length c' = length c"
  unfolding series_round_def sequence_e_Inr
  by (metis length_map)

lemma series_round_nth:
  assumes "series_round n c = Inr c'" "i < length c"
  shows "round_cell n (c ! i) = Inr (c' ! i)"
proof -
  from assms(1) have m: "map (round_cell n) c = map Inr c'"
    by (simp add: series_round_def sequence_e_Inr)
  then have "length c = length c'" by (metis length_map)
  with m assms(2) show ?thesis by (metis nth_map)
qed

lemma series_replace_length: "length (series_replace dict c) = length c"
  by (simp add: series_replace_def)

lemma series_replace_nth:
  "i < length sats \<Longrightarrow>
   series_replace satellite_names sats ! i =
     (if sats ! i = StrV ''T'' then StrV ''Terra''
      else if sats ! i = StrV ''A'' then StrV ''Aqua'' else sats ! i)"
  by (simp add: series_replace_def satellite_names_def)

lemma dt_values_length [simp]: "length (dt_values f c) = length c"
  by (simp add: dt_values_def)

lemma dt_values_nth:
  "i < length c \<Longrightarrow> c ! i = TimestampV y m d \<Longrightarrow>
   dt_values f c ! i = (if NaTV \<in> set c then FloatV (of_int (f y m d)) else IntV (f y m d))"
  by (simp add: dt_values_def)

lemma dt_month_Inr: "dt_month c = Inr c' \<longleftrightarrow> (list_all is_datetime c \<and> c' = dt_values month c)"
  by (auto simp: dt_month_def)

lemma dt_weekofyear_Inr: "dt_weekofyear c = Inr c' \<longleftrightarrow> (list_all is_datetime c \<and> c' = dt_values weekofyear c)"
  by (auto simp: dt_weekofyear_def)

lemma binary_label_IntV: "binary_label (IntV l) = BoolV (l \<noteq> - 1)"
  by (simp add: binary_label_def)

lemma cell_at_Some:
  "cell_at d name i = Some v \<longleftrightarrow> (\<exists>c. get_column d name = Some c \<and> i < length c \<and> c ! i = v)"
  by (auto simp: cell_at_def split: option.splits)

subsection \<open>One lemma per statement\<close>

lemma stmt_to_datetime_effect:
  assumes "stmt_to_datetime lib d = Inr d'"
  obtains dates dts where "get_column d ''acq_date'' = Some dates" "to_datetime lib dates = Inr dts"
    "length dts = length (df_index d)" "df_index d' = df_index d"
    "get_column d' = (get_column d)(''acq_date'' \<mapsto> dts)"
proof -
  from assms obtain dates dts where g: "get_column d ''acq_date'' = Some dates"
    and p: "to_datetime lib dates = Inr dts" and s: "setitem d ''acq_date'' dts = Inr d'"
    by (auto simp: stmt_to_datetime_def bind_e_Inr getitem_Inr)
  from setitem_effect[OF s] g p that show thesis by blast
qed

lemma stmt_satellite_effect:
  assumes "stmt_satellite d = Inr d'"
  obtains sats where "get_column d ''satellite'' = Some sats"
    "length sats = length (df_index d)" "df_index d' = df_index d"
    "get_column d' = (get_column d)(''satellite'' \<mapsto> series_replace satellite_names sats)"
proof -
  from assms obtain sats where g: "get_column d ''satellite'' = Some sats"
    and s: "setitem d ''satellite'' (series_replace satellite_names sats) = Inr d'"
    by (auto simp: stmt_satellite_def bind_e_Inr getitem_Inr)
  have "length (series_replace satellite_names sats) = length sats"
    by (simp add: series_replace_def)
  with setitem_effect[OF s] g that show thesis by metis
qed

lemma stmt_round_effect:
  assumes "stmt_round name d = Inr d'"
  obtains c c' where "get_column d name = Some c" "series_round 2 c = Inr c'"
    "length c' = length (df_index d)" "df_index d' = df_index d"
    "get_column d' = (get_column d)(name \<mapsto> c')"
proof -
  from assms obtain c c' where g: "get_column d name = Some c"
    and p: "series_round 2 c = Inr c'" and s: "setitem d name c' = Inr d'"
    by (auto simp: stmt_round_def bind_e_Inr getitem_Inr)
  from setitem_effect[OF s] g p that show thesis by blast
qed

lemma stmt_month_effect:
  assumes "stmt_month d = Inr d'"
  obtains dts where "get_column d ''acq_date'' = Some dts" "list_all is_datetime dts"
    "df_index d' = df_index d"
    "get_column d' = (get_column d)(''month'' \<mapsto> dt_values month dts)"
proof -
  from assms obtain dts where g: "get_column d ''acq_date'' = Some dts"
    and p: "list_all is_datetime dts" and s: "setitem d ''month'' (dt_values month dts) = Inr d'"
    by (auto simp: stmt_month_def bind_e_Inr getitem_Inr dt_month_Inr)
  from setitem_effect[OF s] g p that show thesis by blast
qed

lemma stmt_week_effect:
  assumes "stmt_week d = Inr d'"
  obtains dts where "get_column d ''acq_date'' = Some dts" "list_all is_datetime dts"
    "df_index d' = df_index d"
    "get_column d' = (get_column d)(''week'' \<mapsto> dt_values weekofyear dts)"
proof -
  from assms obtain dts where g: "get_column d ''acq_date'' = Some dts"
    and p: "list_all is_datetime dts" and s: "setitem d ''week'' (dt_values weekofyear dts) = Inr d'"
    by (auto simp: stmt_week_def bind_e_Inr getitem_Inr dt_weekofyear_Inr)
  from setitem_effect[OF s] g p that show thesis by blast
qed

lemma stmt_drop_effect:
  assumes "stmt_drop d = Inr d'"
  obtains tms where "get_column d ''acq_time'' = Some tms" "df_index d' = df_index d"
    "get_column d' = (get_column d)(''acq_date'' := None, ''acq_time'' := None)"
proof -
  from drop_columns_effect[OF assms[unfolded stmt_drop_def]]
  have a: "get_column d ''acq_time'' \<noteq> None" and b: "df_index d' = df_index d"
    and c: "get_column d' = get_column d |` (- {''acq_date'', ''acq_time''})"
    by simp_all
  from c have "get_column d' = (get_column d)(''acq_date'' := None, ''acq_time'' := None)"
    by (auto simp: fun_eq_iff restrict_map_def)
  with a b that show thesis by blast
qed

lemma stmt_fit_effect:
  assumes "stmt_fit lib d = Inr d'"
  obtains lats lons labels where "get_column d ''latitude'' = Some lats"
    "get_column d ''longitude'' = Some lons"
    "hdbscan_fit lib clusterer (zip lats lons) = Inr labels"
    "length labels = length (df_index d)" "df_index d' = df_index d"
    "get_column d' = (get_column d)(''clusters'' \<mapsto> map IntV labels)"
proof -
  from assms obtain lats lons labels where g: "get_column d ''latitude'' = Some lats"
    "get_column d ''longitude'' = Some lons"
    and p: "hdbscan_fit lib clusterer (zip lats lons) = Inr labels"
    and s: "setitem d ''clusters'' (map IntV labels) = Inr d'"
    by (auto simp: stmt_fit_def getitem2_def bind_e_Inr getitem_Inr)
  from setitem_effect[OF s] have "length labels = length (df_index d)" "df_index d' = df_index d"
    "get_column d' = (get_column d)(''clusters'' \<mapsto> map IntV labels)"
    by simp_all
  with g p that show thesis by blast
qed

lemma stmt_binary_effect:
  assumes "stmt_binary d = Inr d'"
  obtains c where "get_column d ''clusters'' = Some c" "df_index d' = df_index d"
    "get_column d' = (get_column d)(''clusters'' \<mapsto> map binary_label c)"
proof -
  from assms obtain c where g: "get_column d ''clusters'' = Some c"
    and s: "setitem d ''clusters'' (map binary_label c) = Inr d'"
    by (auto simp: stmt_binary_def bind_e_Inr getitem_Inr series_apply_def)
  from setitem_effect[OF s] g that show thesis by blast
qed

lemma body_Inr:
  assumes "run (body lib) d = Inr out"
  obtains dates dts sats lats lats' lons lons' tms labels where
    "get_column d ''acq_date'' = Some dates" "to_datetime lib dates = Inr dts"
    "list_all is_datetime dts" "length dts = length (df_index d)"
    "get_column d ''satellite'' = Some sats" "length sats = length (df_index d)"
    "get_column d ''latitude'' = Some lats" "series_round 2 lats = Inr lats'"
    "length lats' = length (df_index d)"
    "get_column d ''longitude'' = Some lons" "series_round 2 lons = Inr lons'"
    "length lons' = length (df_index d)"
    "get_column d ''acq_time'' = Some tms"
    "hdbscan_fit lib clusterer (zip lats' lons') = Inr labels"
    "length labels = length (df_index d)"
    "df_index out = df_index d"
    "get_column out =
       (get_column d)(''satellite'' \<mapsto> series_replace satellite_names sats,
          ''latitude'' \<mapsto> lats', ''longitude'' \<mapsto> lons',
          ''month'' \<mapsto> dt_values month dts, ''week'' \<mapsto> dt_values weekofyear dts,
          ''acq_date'' := None, ''acq_time'' := None,
          ''clusters'' \<mapsto> map (\<lambda>l. BoolV (l \<noteq> - 1)) labels)"
proof -
  from assms obtain d1 d2 d3 d4 d5 d6 d7 d8 where
    s1: "stmt_to_datetime lib d = Inr d1" and
    s2: "stmt_satellite d1 = Inr d2" and
    s3: "stmt_round ''latitude'' d2 = Inr d3" and
    s4: "stmt_round ''longitude'' d3 = Inr d4" and
    s5: "stmt_month d4 = Inr d5" and
    s6: "stmt_week d5 = Inr d6" and
    s7: "stmt_drop d6 = Inr d7" and
    s8: "stmt_fit lib d7 = Inr d8" and
    s9: "stmt_binary d8 = Inr out"
    by (auto simp: body_def bind_e_Inr)
  from s1 obtain dates dts where
    a1: "get_column d ''acq_date'' = Some dates" "to_datetime lib dates = Inr dts"
        "length dts = length (df_index d)"
    and i1: "df_index d1 = df_index d"
    and c1: "get_column d1 = (get_column d)(''acq_date'' \<mapsto> dts)"
    by (rule stmt_to_datetime_effect)
  from s2 obtain sats where
    a2: "get_column d1 ''satellite'' = Some sats" "length sats = length (df_index d1)"
    and i2: "df_index d2 = df_index d1"
    and c2: "get_column d2 = (get_column d1)(''satellite'' \<mapsto> series_replace satellite_names sats)"
    by (rule stmt_satellite_effect)
  from s3 obtain lats lats' where
    a3: "get_column d2 ''latitude'' = Some lats" "series_round 2 lats = Inr lats'"
        "length lats' = length (df_index d2)"
    and i3: "df_index d3 = df_index d2"
    and c3: "get_column d3 = (get_column d2)(''latitude'' \<mapsto> lats')"
    by (rule stmt_round_effect)
  from s4 obtain lons lons' where
    a4: "get_column d3 ''longitude'' = Some lons" "series_round 2 lons = Inr lons'"
        "length lons' = length (df_index d3)"
    and i4: "df_index d4 = df_index d3"
    and c4: "get_column d4 = (get_column d3)(''longitude'' \<mapsto> lons')"
    by (rule stmt_round_effect)
  from s5 obtain dts5 where
    a5: "get_column d4 ''acq_date'' = Some dts5" "list_all is_datetime dts5"
    and i5: "df_index d5 = df_index d4"
    and c5: "get_column d5 = (get_column d4)(''month'' \<mapsto> dt_values month dts5)"
    by (rule stmt_month_effect)
  from s6 obtain dts6 where
    a6: "get_column d5 ''acq_date'' = Some dts6"
    and i6: "df_index d6 = df_index d5"
    and c6: "get_column d6 = (get_column d5)(''week'' \<mapsto> dt_values weekofyear dts6)"
    by (rule stmt_week_effect)
  from s7 obtain tms where
    a7: "get_column d6 ''acq_time'' = Some tms"
    and i7: "df_index d7 = df_index d6"
    and c7: "get_column d7 = (get_column d6)(''acq_date'' := None, ''acq_time'' := None)"
    by (rule stmt_drop_effect)
  from s8 obtain lats8 lons8 labels where
    a8: "get_column d7 ''latitude'' = Some lats8" "get_column d7 ''longitude'' = Some lons8"
        "hdbscan_fit lib clusterer (zip lats8 lons8) = Inr labels"
        "length labels = length (df_index d7)"
    and i8: "df_index d8 = df_index d7"
    and c8: "get_column d8 = (get_column d7)(''clusters'' \<mapsto> map IntV labels)"
    by (rule stmt_fit_effect)
  from s9 obtain c where
    a9: "get_column d8 ''clusters'' = Some c"
    and i9: "df_index out = df_index d8"
    and c9: "get_column out = (get_column d8)(''clusters'' \<mapsto> map binary_label c)"
    by (rule stmt_binary_effect)
  have idx: "df_index out = df_index d" "df_index d7 = df_index d" "df_index d3 = df_index d"
    "df_index d2 = df_index d" "df_index d1 = df_index d"
    by (simp_all add: i1 i2 i3 i4 i5 i6 i7 i8 i9)
  have b2: "get_column d ''satellite'' = Some sats"
    using a2(1) by (simp add: c1)
  have b3: "get_column d ''latitude'' = Some lats"
    using a3(1) by (simp add: c2 c1)
  have b4: "get_column d ''longitude'' = Some lons"
    using a4(1) by (simp add: c3 c2 c1)
  have b5: "dts5 = dts"
    using a5(1) by (simp add: c4 c3 c2 c1)
  have b6: "dts6 = dts"
    using a6 by (simp add: c5 c4 c3 c2 c1)
  have b7: "get_column d ''acq_time'' = Some tms"
    using a7 by (simp add: c6 c5 c4 c3 c2 c1)
  have b8: "lats8 = lats'" "lons8 = lons'"
    using a8(1,2) by (simp_all add: c7 c6 c5 c4 c3 c2 c1)
  have b9: "c = map IntV labels"
    using a9 by (simp add: c8)
  have cols: "get_column out =
       (get_column d)(''satellite'' \<mapsto> series_replace satellite_names sats,
          ''latitude'' \<mapsto> lats', ''longitude'' \<mapsto> lons',
          ''month'' \<mapsto> dt_values month dts, ''week'' \<mapsto> dt_values weekofyear dts,
          ''acq_date'' := None, ''acq_time'' := None,
          ''clusters'' \<mapsto> map (\<lambda>l. BoolV (l \<noteq> - 1)) labels)"
    unfolding c9 c8 c7 c6 c5 c4 c3 c2 c1 b5 b6 b9
    by (auto simp: fun_eq_iff binary_label_IntV comp_def)
  show thesis
    using that[OF a1(1) a1(2) a5(2)[unfolded b5] a1(3) b2 a2(2)[unfolded idx] b3 a3(2)
        a3(3)[unfolded idx] b4 a4(2) a4(3)[unfolded idx] b7 a8(3)[unfolded b8]
        a8(4)[unfolded idx] idx(1) cols] .
qed

subsection \<open>Well-formedness is preserved\<close>

lemma list_all_update:
  "list_all P al \<Longrightarrow> P (k, v) \<Longrightarrow> list_all P (AList.update k v al)"
  by (induction al) auto

lemma wf_df_setitem: "wf_df d \<Longrightarrow> setitem d name c = Inr d' \<Longrightarrow> wf_df d'"
  by (auto simp: wf_df_def setitem_Inr distinct_update list_all_update)

lemma wf_df_drop: "wf_df d \<Longrightarrow> drop_columns d names = Inr d' \<Longrightarrow> wf_df d'"
  by (fastforce simp: wf_df_def drop_columns_def distinct_map_filter list_all_iff split: list.splits)

lemma wf_df_stmt:
  assumes "wf_df d" "s \<in> set (body lib)" "s d = Inr d'"
  shows "wf_df d'"
proof -
  from assms(2) consider "s = stmt_to_datetime lib" | "s = stmt_satellite"
    | "s = stmt_round ''latitude''" | "s = stmt_round ''longitude''" | "s = stmt_month"
    | "s = stmt_week" | "s = stmt_drop" | "s = stmt_fit lib" | "s = stmt_binary"
    by (auto simp: body_def)
  then show ?thesis
  proof cases
    case 1
    with assms show ?thesis
      by (auto simp: stmt_to_datetime_def bind_e_Inr intro: wf_df_setitem)
  next
    case 2
    with assms show ?thesis
      by (auto simp: stmt_satellite_def bind_e_Inr intro: wf_df_setitem)
  next
    case 3
    with assms show ?thesis
      by (auto simp: stmt_round_def bind_e_Inr intro: wf_df_setitem)
  next
    case 4
    with assms show ?thesis
      by (auto simp: stmt_round_def bind_e_Inr intro: wf_df_setitem)
  next
    case 5
    with assms show ?thesis
      by (auto simp: stmt_month_def bind_e_Inr intro: wf_df_setitem)
  next
    case 6
    with assms show ?thesis
      by (auto simp: stmt_week_def bind_e_Inr intro: wf_df_setitem)
  next
    case 7
    with assms show ?thesis
      by (auto simp: stmt_drop_def intro: wf_df_drop)
  next
    case 8
    with assms show ?thesis
      by (auto simp: stmt_fit_def bind_e_Inr intro: wf_df_setitem)
  next
    case 9
    with assms show ?thesis
      by (auto simp: stmt_binary_def bind_e_Inr intro: wf_df_setitem)
  qed
qed

lemma wf_df_run:
  "wf_df d \<Longrightarrow> set ss \<subseteq> set (body lib) \<Longrightarrow> run ss d = Inr d' \<Longrightarrow> wf_df d'"
proof (induction ss arbitrary: d)
  case Nil
  then show ?case by simp
next
  case (Cons s ss)
  from Cons.prems(3) obtain d1 where s: "s d = Inr d1" and r: "run ss d1 = Inr d'"
    by (auto simp: bind_e_Inr)
  from Cons.prems(1,2) s have "wf_df d1" by (auto intro: wf_df_stmt)
  with Cons.IH r Cons.prems(2) show ?case by simp
qed

lemma wf_df_length: "wf_df d \<Longrightarrow> get_column d name = Some c \<Longrightarrow> length c = length (df_index d)"
  by (auto simp: wf_df_def get_column_def list_all_iff dest: map_of_SomeD)

subsection \<open>The heap\<close>

lemma exec_frame:
  "exec ss df h = (res, h') \<Longrightarrow> length h' = length h \<and> (\<forall>i. i \<noteq> df \<longrightarrow> h' ! i = h ! i)"
proof (induction ss arbitrary: h)
  case Nil
  then show ?case by simp
next
  case (Cons s ss)
  show ?case
  proof (cases "s (h ! df)")
    case (Inl e)
    with Cons.prems show ?thesis by simp
  next
    case (Inr d)
    with Cons.prems have "exec ss df (h[df := d]) = (res, h')" by simp
    from Cons.IH[OF this] show ?thesis by simp
  qed
qed

lemma exec_run:
  "df < length h \<Longrightarrow>
   exec ss df h = (None, h') \<longleftrightarrow> (\<exists>d. run ss (h ! df) = Inr d \<and> h' = h[df := d])"
proof (induction ss arbitrary: h)
  case Nil
  then show ?case by auto
next
  case (Cons s ss)
  show ?case
  proof (cases "s (h ! df)")
    case (Inl e)
    then show ?thesis by simp
  next
    case (Inr d)
    have "df < length (h[df := d])" using Cons.prems by simp
    from Cons.IH[OF this] Inr Cons.prems show ?thesis by simp
  qed
qed

lemma exec_run_error:
  "df < length h \<Longrightarrow> exec ss df h = (Some e, h') \<Longrightarrow> run ss (h ! df) = Inl e"
proof (induction ss arbitrary: h)
  case Nil
  then show ?case by auto
next
  case (Cons s ss)
  show ?case
  proof (cases "s (h ! df)")
    case (Inl e')
    with Cons.prems show ?thesis by simp
  next
    case (Inr d)
    have "df < length (h[df := d])" using Cons.prems by simp
    from Cons.IH[OF this] Inr Cons.prems show ?thesis by simp
  qed
qed

lemma process_Inr:
  assumes "original_df < length h"
  shows "process_live_data_and_cluster lib original_df h = (Inr r, h') \<longleftrightarrow>
         (r = length h \<and> (\<exists>out. run (body lib) (h ! original_df) = Inr out \<and> h' = h @ [out]))"
proof -
  have *: "length h < length (h @ [h ! original_df])" by simp
  show ?thesis
    unfolding process_live_data_and_cluster_def df_copy_def
    using exec_run[OF *, of "body lib"]
    by (auto split: prod.splits option.splits)
qed

lemma process_Inl:
  assumes "original_df < length h" "process_live_data_and_cluster lib original_df h = (Inl e, h')"
  shows "run (body lib) (h ! original_df) = Inl e"
proof -
  have *: "length h < length (h @ [h ! original_df])" by simp
  from assms(2) obtain h2 where "exec (body lib) (length h) (h @ [h ! original_df]) = (Some e, h2)"
    unfolding process_live_data_and_cluster_def df_copy_def
    by (auto split: prod.splits option.splits)
  from exec_run_error[OF * this] show ?thesis by simp
qed

lemma process_heap:
  assumes "process_live_data_and_cluster lib original_df h = (res, h')"
  shows "length h' = Suc (length h)" "take (length h) h' = h"
proof -
  from assms obtain e where ex: "exec (body lib) (length h) (h @ [h ! original_df]) = (e, h')"
    unfolding process_live_data_and_cluster_def df_copy_def
    by (auto split: prod.splits option.splits)
  from exec_frame[OF ex] have len: "length h' = Suc (length h)"
    and same: "\<forall>i. i \<noteq> length h \<longrightarrow> h' ! i = (h @ [h ! original_df]) ! i"
    by simp_all
  show "length h' = Suc (length h)" by (rule len)
  show "take (length h) h' = h"
    by (rule nth_equalityI) (use len same in \<open>auto simp: nth_append\<close>)
qed

subsection \<open>When the call returns\<close>

lemma accepts_returns:
  assumes "wf_df d"
    and sat: "get_column d ''satellite'' = Some sats"
    and tm: "get_column d ''acq_time'' = Some tms"
    and dt: "get_column d ''acq_date'' = Some dates" "to_datetime lib dates = Inr dts"
        "length dts = length (df_index d)" "list_all is_datetime dts"
    and co: "get_column d ''latitude'' = Some lats" "series_round 2 lats = Inr lats'"
        "get_column d ''longitude'' = Some lons" "series_round 2 lons = Inr lons'"
        "hdbscan_fit lib clusterer (zip lats' lons') = Inr labels"
        "length labels = length (df_index d)"
  shows "\<exists>out. run (body lib) d = Inr out"
proof -
  have len: "length sats = length (df_index d)" "length lats' = length (df_index d)"
       "length lons' = length (df_index d)"
    using assms(1) sat co series_round_length by (auto dest: wf_df_length)
  define d1 where "d1 = d\<lparr>df_columns := AList.update ''acq_date'' dts (df_columns d)\<rparr>"
  define d2 where "d2 = d1\<lparr>df_columns := AList.update ''satellite'' (series_replace satellite_names sats) (df_columns d1)\<rparr>"
  define d3 where "d3 = d2\<lparr>df_columns := AList.update ''latitude'' lats' (df_columns d2)\<rparr>"
  define d4 where "d4 = d3\<lparr>df_columns := AList.update ''longitude'' lons' (df_columns d3)\<rparr>"
  define d5 where "d5 = d4\<lparr>df_columns := AList.update ''month'' (dt_values month dts) (df_columns d4)\<rparr>"
  define d6 where "d6 = d5\<lparr>df_columns := AList.update ''week'' (dt_values weekofyear dts) (df_columns d5)\<rparr>"
  define d7 where "d7 = d6\<lparr>df_columns := filter (\<lambda>nc. fst nc \<notin> set [''acq_date'', ''acq_time'']) (df_columns d6)\<rparr>"
  define d8 where "d8 = d7\<lparr>df_columns := AList.update ''clusters'' (map IntV labels) (df_columns d7)\<rparr>"
  define d9 where "d9 = d8\<lparr>df_columns := AList.update ''clusters'' (series_apply binary_label (map IntV labels)) (df_columns d8)\<rparr>"
  have g1: "get_column d1 = (get_column d)(''acq_date'' \<mapsto> dts)"
    unfolding d1_def by (rule get_column_update)
  have g2: "get_column d2 = (get_column d1)(''satellite'' \<mapsto> series_replace satellite_names sats)"
    unfolding d2_def by (rule get_column_update)
  have g3: "get_column d3 = (get_column d2)(''latitude'' \<mapsto> lats')"
    unfolding d3_def by (rule get_column_update)
  have g4: "get_column d4 = (get_column d3)(''longitude'' \<mapsto> lons')"
    unfolding d4_def by (rule get_column_update)
  have g5: "get_column d5 = (get_column d4)(''month'' \<mapsto> dt_values month dts)"
    unfolding d5_def by (rule get_column_update)
  have g6: "get_column d6 = (get_column d5)(''week'' \<mapsto> dt_values weekofyear dts)"
    unfolding d6_def by (rule get_column_update)
  have g7: "get_column d7 = get_column d6 |` (- set [''acq_date'', ''acq_time''])"
    unfolding d7_def by (rule get_column_drop)
  have g8: "get_column d8 = (get_column d7)(''clusters'' \<mapsto> map IntV labels)"
    unfolding d8_def by (rule get_column_update)
  have idx: "df_index d1 = df_index d" "df_index d2 = df_index d" "df_index d3 = df_index d"
    "df_index d4 = df_index d" "df_index d5 = df_index d" "df_index d6 = df_index d"
    "df_index d7 = df_index d" "df_index d8 = df_index d"
    by (simp_all add: d1_def d2_def d3_def d4_def d5_def d6_def d7_def d8_def)
  have s1: "stmt_to_datetime lib d = Inr d1"
    using dt by (simp add: stmt_to_datetime_def getitem_def setitem_def d1_def)
  have s2: "stmt_satellite d1 = Inr d2"
    using sat len by (simp add: stmt_satellite_def getitem_def setitem_def g1 idx d2_def series_replace_def)
  have s3: "stmt_round ''latitude'' d2 = Inr d3"
    using co len by (simp add: stmt_round_def getitem_def setitem_def g1 g2 idx d3_def)
  have s4: "stmt_round ''longitude'' d3 = Inr d4"
    using co len by (simp add: stmt_round_def getitem_def setitem_def g1 g2 g3 idx d4_def)
  have s5: "stmt_month d4 = Inr d5"
    using dt by (simp add: stmt_month_def getitem_def setitem_def dt_month_def g1 g2 g3 g4 idx d5_def)
  have s6: "stmt_week d5 = Inr d6"
    using dt by (simp add: stmt_week_def getitem_def setitem_def dt_weekofyear_def g1 g2 g3 g4 g5 idx d6_def)
  have s7: "stmt_drop d6 = Inr d7"
    using tm by (simp add: stmt_drop_def drop_columns_def g1 g2 g3 g4 g5 g6 d7_def)
  have s8: "stmt_fit lib d7 = Inr d8"
    using co by (simp add: stmt_fit_def getitem2_def getitem_def setitem_def g1 g2 g3 g4 g5 g6 g7 idx d8_def)
  have s9: "stmt_binary d8 = Inr d9"
    using co by (simp add: stmt_binary_def getitem_def setitem_def series_apply_def g8 idx d9_def)
  have "run (body lib) d = Inr d9"
    by (simp add: body_def s1 s2 s3 s4 s5 s6 s7 s8 s9)
  then show ?thesis ..
qed

lemma acceptsE:
  assumes "accepts lib d"
  obtains sats tms dates dts lats lats' lons lons' labels where
    "wf_df d" "get_column d ''satellite'' = Some sats" "get_column d ''acq_time'' = Some tms"
    "get_column d ''acq_date'' = Some dates" "to_datetime lib dates = Inr dts"
    "length dts = length (df_index d)" "list_all is_datetime dts"
    "get_column d ''latitude'' = Some lats" "series_round 2 lats = Inr lats'"
    "get_column d ''longitude'' = Some lons" "series_round 2 lons = Inr lons'"
    "hdbscan_fit lib clusterer (zip lats' lons') = Inr labels"
    "length labels = length (df_index d)"
proof -
  from assms have wf: "wf_df d" by (simp add: accepts_def)
  from assms obtain sats tms where
    sat: "get_column d ''satellite'' = Some sats" and tm: "get_column d ''acq_time'' = Some tms"
    by (auto simp: accepts_def)
  from assms obtain dates dts where
    dt: "get_column d ''acq_date'' = Some dates" "to_datetime lib dates = Inr dts"
        "length dts = length (df_index d)" "list_all is_datetime dts"
    by (auto simp: accepts_def parsed_dates_def bind_e_Inr getitem_Inr split: sum.splits)
  from assms obtain lats lats' lons lons' labels where
    co: "get_column d ''latitude'' = Some lats" "series_round 2 lats = Inr lats'"
        "get_column d ''longitude'' = Some lons" "series_round 2 lons = Inr lons'"
        "hdbscan_fit lib clusterer (zip lats' lons') = Inr labels"
        "length labels = length (df_index d)"
    by (auto simp: accepts_def rounded_coordinates_def bind_e_Inr getitem_Inr split: sum.splits)
  from wf sat tm dt co that show thesis by blast
qed

lemma accepts_run: "accepts lib d \<Longrightarrow> \<exists>out. run (body lib) d = Inr out"
  by (erule acceptsE) (rule accepts_returns)

lemma accepts_process:
  assumes "original_df < length h" "accepts lib (h ! original_df)"
  shows "\<exists>out. run (body lib) (h ! original_df) = Inr out \<and>
           process_live_data_and_cluster lib original_df h = (Inr (length h), h @ [out])"
  using accepts_run[OF assms(2)] process_Inr[OF assms(1)] by blast

lemma run_accepts:
  assumes "run (body lib) d = Inr out" "wf_df d"
  shows "accepts lib d"
  using assms(1)
proof (rule body_Inr)
  fix dates dts sats lats lats' lons lons' tms labels
  assume "get_column d ''acq_date'' = Some dates" "to_datetime lib dates = Inr dts"
    "list_all is_datetime dts" "length dts = length (df_index d)"
    "get_column d ''satellite'' = Some sats"
    "get_column d ''latitude'' = Some lats" "series_round 2 lats = Inr lats'"
    "get_column d ''longitude'' = Some lons" "series_round 2 lons = Inr lons'"
    "get_column d ''acq_time'' = Some tms"
    "hdbscan_fit lib clusterer (zip lats' lons') = Inr labels"
    "length labels = length (df_index d)"
  with assms(2) show "accepts lib d"
    by (simp add: accepts_def parsed_dates_def rounded_coordinates_def getitem_def)
qed

lemma rounded_coordinates_eq:
  "get_column d ''latitude'' = Some lats \<Longrightarrow> series_round 2 lats = Inr lats' \<Longrightarrow>
   get_column d ''longitude'' = Some lons \<Longrightarrow> series_round 2 lons = Inr lons' \<Longrightarrow>
   rounded_coordinates d = Inr (zip lats' lons')"
  by (simp add: rounded_coordinates_def getitem_def)



lemma rounded_coordinates_cong:
  "get_column d1 ''latitude'' = get_column d2 ''latitude'' \<Longrightarrow>
   get_column d1 ''longitude'' = get_column d2 ''longitude'' \<Longrightarrow>
   rounded_coordinates d1 = rounded_coordinates d2"
  by (simp add: rounded_coordinates_def getitem_def)

lemma run_clusters:
  assumes "run (body lib) d = Inr out"
  shows "\<exists>pts labels. rounded_coordinates d = Inr pts \<and> hdbscan_fit lib clusterer pts = Inr labels \<and>
           length labels = length (df_index out) \<and>
           get_column out ''clusters'' = Some (map (\<lambda>l. BoolV (l \<noteq> - 1)) labels)"
  using assms
proof (rule body_Inr)
  fix lats lats' lons lons' labels and dts sats :: column
  assume co: "get_column d ''latitude'' = Some lats" "series_round 2 lats = Inr lats'"
    "get_column d ''longitude'' = Some lons" "series_round 2 lons = Inr lons'"
    and fit: "hdbscan_fit lib clusterer (zip lats' lons') = Inr labels"
    and len: "length labels = length (df_index d)" and idx: "df_index out = df_index d"
    and cols: "get_column out =
       (get_column d)(''satellite'' \<mapsto> series_replace satellite_names sats,
          ''latitude'' \<mapsto> lats', ''longitude'' \<mapsto> lons',
          ''month'' \<mapsto> dt_values month dts, ''week'' \<mapsto> dt_values weekofyear dts,
          ''acq_date'' := None, ''acq_time'' := None,
          ''clusters'' \<mapsto> map (\<lambda>l. BoolV (l \<noteq> - 1)) labels)"
  from cols have "get_column out ''clusters'' = Some (map (\<lambda>l. BoolV (l \<noteq> - 1)) labels)"
    by simp
  with rounded_coordinates_eq[OF co] fit len idx show ?thesis by auto
qed

lemma run_satellite:
  assumes "run (body lib) d = Inr out" "get_column d ''satellite'' = Some sats"
  shows "get_column out ''satellite'' = Some (series_replace satellite_names sats)"
  using assms(1)
proof (rule body_Inr)
  fix lats' lons' dts sats0 :: column and labels :: "int list"
  assume "get_column d ''satellite'' = Some sats0"
    and "get_column out =
       (get_column d)(''satellite'' \<mapsto> series_replace satellite_names sats0,
          ''latitude'' \<mapsto> lats', ''longitude'' \<mapsto> lons',
          ''month'' \<mapsto> dt_values month dts, ''week'' \<mapsto> dt_values weekofyear dts,
          ''acq_date'' := None, ''acq_time'' := None,
          ''clusters'' \<mapsto> map (\<lambda>l. BoolV (l \<noteq> - 1)) labels)"
  with assms(2) show ?thesis by simp
qed

lemma run_pass_through:
  assumes "run (body lib) d = Inr out"
    and "name \<notin> {''acq_date'', ''acq_time'', ''satellite'', ''latitude'', ''longitude'',
                  ''month'', ''week'', ''clusters''}"
  shows "get_column out name = get_column d name"
  using assms(1)
proof (rule body_Inr)
  fix lats' lons' dts sats :: column and labels :: "int list"
  assume "get_column out =
       (get_column d)(''satellite'' \<mapsto> series_replace satellite_names sats,
          ''latitude'' \<mapsto> lats', ''longitude'' \<mapsto> lons',
          ''month'' \<mapsto> dt_values month dts, ''week'' \<mapsto> dt_values weekofyear dts,
          ''acq_date'' := None, ''acq_time'' := None,
          ''clusters'' \<mapsto> map (\<lambda>l. BoolV (l \<noteq> - 1)) labels)"
  with assms(2) show ?thesis by simp
qed

subsection \<open>Rounding twice\<close>

lemma rint_of_int: "rint (of_int k) = k"
  by (simp add: rint_def)

lemma np_round_idem: "np_round n (np_round n x) = np_round n x"
  by (simp add: np_round_def rint_of_int)

lemma round_cell_idem: "round_cell n c = Inr c' \<Longrightarrow> round_cell n c' = Inr c'"
  by (cases c) (auto simp: np_round_idem)

lemma series_round_idem: "series_round n c = Inr c' \<Longrightarrow> series_round n c' = Inr c'"
proof -
  assume "series_round n c = Inr c'"
  then have m: "map (round_cell n) c = map Inr c'"
    by (simp add: series_round_def sequence_e_Inr)
  have "map (round_cell n) c' = map Inr c'"
  proof (rule nth_equalityI)
    show "length (map (round_cell n) c') = length (map Inr c')" by simp
  next
    fix i assume "i < length (map (round_cell n) c')"
    then have i: "i < length c'" by simp
    from m have "length c = length c'" by (metis length_map)
    with i m have "round_cell n (c ! i) = Inr (c' ! i)"
      by (metis nth_map)
    then have "round_cell n (c' ! i) = Inr (c' ! i)" by (rule round_cell_idem)
    with i show "map (round_cell n) c' ! i = map Inr c' ! i" by simp
  qed
  then show ?thesis by (simp add: series_round_def sequence_e_Inr)
qed

lemma stmt_round_twice: "bind_e (stmt_round name d) (stmt_round name) = stmt_round name d"
proof (cases "stmt_round name d")
  case (Inl e)
  then show ?thesis by simp
next
  case (Inr d')
  then obtain c c' where g: "get_column d name = Some c" and r: "series_round 2 c = Inr c'"
    and s: "setitem d name c' = Inr d'"
    by (auto simp: stmt_round_def bind_e_Inr getitem_Inr)
  from setitem_effect[OF s] have n: "length c' = length (df_index d')"
    and g': "get_column d' name = Some c'" by simp_all
  from s have d': "d' = d\<lparr>df_columns := AList.update name c' (df_columns d)\<rparr>"
    by (simp add: setitem_Inr)
  have "setitem d' name c' = Inr d'"
    using n by (simp add: setitem_def d')
  then show ?thesis
    using Inr g' series_round_idem[OF r] by (simp add: stmt_round_def getitem_def)
qed

subsection \<open>Rounding in binary64 arithmetic\<close>

lemma rint_error: "\<bar>of_int (rint t) - t\<bar> \<le> 1 / 2"
  unfolding rint_def Let_def by (auto; linarith)

lemma rint_near:
  assumes "\<bar>t - of_int k\<bar> < 1 / 2"
  shows "rint t = k"
proof -
  define f where "f = \<lfloor>t\<rfloor>"
  define K :: real where "K = of_int k"
  define F :: real where "F = of_int f"
  have f: "F \<le> t" "t < F + 1" unfolding F_def f_def by linarith+
  from assms[unfolded abs_less_iff] have k: "t - K < 1 / 2" "- (t - K) < 1 / 2"
    unfolding K_def by blast+
  from k f have "F < K + 1" by linarith
  then have "(of_int f :: real) < of_int (k + 1)" by (simp add: F_def K_def)
  then have up: "f \<le> k" by simp
  from k f have "K - 1 < F + 1" by linarith
  then have "(of_int (k - 1) :: real) < of_int (f + 1)" by (simp add: F_def K_def)
  then have lo: "k - 1 \<le> f" by simp
  from up lo consider "f = k" | "f = k - 1" by linarith
  then show ?thesis
  proof cases
    case 1
    then have "F = K" by (simp add: F_def K_def)
    with k have "t - F < 1 / 2" by simp
    with 1 show ?thesis by (simp add: rint_def Let_def F_def flip: f_def)
  next
    case 2
    then have "F = K - 1" by (simp add: F_def K_def)
    with k have "1 / 2 < t - F" by linarith
    moreover from this have "\<not> t - F < 1 / 2" by linarith
    ultimately show ?thesis using 2 by (simp add: rint_def Let_def F_def flip: f_def)
  qed
qed

lemma fl64_error: "\<bar>fl64 x - x\<bar> \<le> \<bar>x\<bar> / 2 ^ 53"
proof (cases "x = 0")
  case True
  then show ?thesis by (simp add: fl64_def)
next
  case False
  define E where "E = \<lfloor>log 2 \<bar>x\<bar>\<rfloor>"
  define p :: real where "p = 2 powr of_int (E - 52)"
  have p: "0 < p" by (simp add: p_def)
  have "of_int E \<le> log 2 \<bar>x\<bar>" by (simp add: E_def)
  then have "2 powr of_int E \<le> 2 powr log 2 \<bar>x\<bar>" by simp
  then have E: "2 powr of_int E \<le> \<bar>x\<bar>" using False by simp
  have "(2::real) powr of_int E = 2 powr (of_int (E - 52) + 52)" by simp
  also have "\<dots> = p * 2 powr 52" by (simp only: powr_add p_def)
  also have "(2::real) powr 52 = 2 ^ 52" by (simp add: powr_numeral)
  finally have pE: "p * 2 ^ 52 \<le> \<bar>x\<bar>" using E by simp
  have "fl64 x = of_int (rint (x / p)) * p"
    using False by (simp add: fl64_def E_def p_def Let_def)
  then have "fl64 x - x = (of_int (rint (x / p)) - x / p) * p"
    using p by (simp add: field_simps)
  then have "\<bar>fl64 x - x\<bar> = \<bar>of_int (rint (x / p)) - x / p\<bar> * p"
    using p by (simp add: abs_mult)
  also have "\<dots> \<le> (1 / 2) * p"
    using rint_error[of "x / p"] p by (intro mult_right_mono) simp_all
  also have "\<dots> \<le> \<bar>x\<bar> / 2 ^ 53"
    using pE by simp
  finally show ?thesis .
qed

lemma fl64_error_le: "\<bar>fl64 x - x\<bar> \<le> \<bar>x\<bar>"
proof -
  have "\<bar>x\<bar> / 2 ^ 53 \<le> \<bar>x\<bar> / 1" by (intro divide_left_mono) simp_all
  then have "\<bar>x\<bar> / 2 ^ 53 \<le> \<bar>x\<bar>" by (simp only: div_by_1)
  with fl64_error[of x] show ?thesis by (rule order_trans)
qed

lemma np_round64_idem:
  assumes "\<bar>x\<bar> \<le> 10 ^ 9"
  shows "np_round64 2 (np_round64 2 x) = np_round64 2 x"
proof -
  define X where "X = x * 100"
  define a where "a = fl64 X"
  define k where "k = rint a"
  define K :: real where "K = of_int k"
  define y where "y = fl64 (K / 100)"
  define Y where "Y = y * 100"
  define b where "b = fl64 Y"
  from assms have X: "\<bar>X\<bar> \<le> 10 ^ 11" by (simp add: X_def abs_mult)
  have "\<bar>a - X\<bar> \<le> \<bar>X\<bar>" unfolding a_def by (rule fl64_error_le)
  with X have a: "\<bar>a\<bar> \<le> 2 * 10 ^ 11" by linarith
  have "\<bar>K - a\<bar> \<le> 1 / 2" unfolding k_def K_def by (rule rint_error)
  with a have K: "\<bar>K\<bar> \<le> 2 * 10 ^ 11 + 1" by linarith
  have "\<bar>y - K / 100\<bar> \<le> \<bar>K / 100\<bar> / 2 ^ 53" unfolding y_def by (rule fl64_error)
  then have "\<bar>y - K / 100\<bar> * 100 \<le> \<bar>K\<bar> / 2 ^ 53" by simp
  moreover have "\<bar>Y - K\<bar> = \<bar>y - K / 100\<bar> * 100"
    unfolding Y_def by (simp add: abs_if)
  ultimately have YK: "\<bar>Y - K\<bar> \<le> \<bar>K\<bar> / 2 ^ 53" by simp
  also have "\<dots> \<le> (2 * 10 ^ 11 + 1) / 2 ^ 53" using K by (intro divide_right_mono) simp_all
  finally have YK': "\<bar>Y - K\<bar> \<le> 1 / 8" by simp
  with K have Y: "\<bar>Y\<bar> \<le> 2 * 10 ^ 11 + 2" by linarith
  have "\<bar>b - Y\<bar> \<le> \<bar>Y\<bar> / 2 ^ 53" unfolding b_def by (rule fl64_error)
  also have "\<dots> \<le> (2 * 10 ^ 11 + 2) / 2 ^ 53" using Y by (intro divide_right_mono) simp_all
  finally have bY: "\<bar>b - Y\<bar> \<le> 1 / 8" by simp
  from bY YK' have "\<bar>b - of_int k\<bar> < 1 / 2" unfolding K_def by linarith
  then have "rint b = k" by (rule rint_near)
  then show ?thesis
    by (simp add: np_round64_def X_def a_def k_def K_def y_def Y_def b_def)
qed

lemma np_round64_away_from_ties:
  assumes "\<bar>x\<bar> \<le> 10 ^ 9"
    and "\<bar>x * 100 - of_int (rint (x * 100))\<bar> \<le> 1 / 2 - 1 / 2 ^ 16"
  shows "np_round64 2 x = fl64 (np_round 2 x)"
proof -
  define X where "X = x * 100"
  define k where "k = rint X"
  define K :: real where "K = of_int k"
  from assms(1) have X: "\<bar>X\<bar> \<le> 10 ^ 11" by (simp add: X_def abs_mult)
  have "\<bar>fl64 X - X\<bar> \<le> \<bar>X\<bar> / 2 ^ 53" by (rule fl64_error)
  also have "\<dots> \<le> 10 ^ 11 / 2 ^ 53" using X by (intro divide_right_mono) simp_all
  also have "\<dots> < 1 / 2 ^ 16" by simp
  finally have e: "\<bar>fl64 X - X\<bar> < 1 / 2 ^ 16" .
  from assms(2) have "\<bar>X - K\<bar> \<le> 1 / 2 - 1 / 2 ^ 16" by (simp add: X_def k_def K_def)
  with e have "\<bar>fl64 X - of_int k\<bar> < 1 / 2" unfolding K_def by linarith
  then have "rint (fl64 X) = k" by (rule rint_near)
  then show ?thesis
    by (simp add: np_round64_def np_round_def X_def k_def)
qed

subsection \<open>The minimum cluster size\<close>





subsection \<open>The example batches\<close>

lemma live_batch_dates: "iso_to_datetime [StrV ''2020-01-05'', StrV ''2020-01-05'', StrV ''2021-01-03''] = Inr [TimestampV 2020 1 5, TimestampV 2020 1 5, TimestampV 2021 1 3]"
  by (simp add: iso_to_datetime_def parse_iso_date_def digit_val_def days_in_month_def)

lemma example_run:
  "process_live_data_and_cluster example_library 0 [live_batch] = (Inr 1, [live_batch, live_batch_out])"
  by (simp add: process_live_data_and_cluster_def df_copy_def body_def live_batch_def live_batch_out_def
     example_library_def stmt_to_datetime_def stmt_satellite_def stmt_round_def stmt_month_def
     stmt_week_def stmt_drop_def stmt_fit_def stmt_binary_def getitem_def getitem2_def setitem_def drop_columns_def
     get_column_def live_batch_dates series_replace_def satellite_names_def series_round_def np_round_def rint_def
     dt_month_def dt_weekofyear_def dt_values_def month_def weekofyear_def isoweek1monday_def ymd2ord_def days_before_year_def
     days_before_month_def days_in_month_def is_leap_def colocated_fit_def clusterer_def series_apply_def binary_label_def)

lemma live_batch_wf: "wf_df live_batch"
  by (simp add: wf_df_def live_batch_def)

lemma example_accepts: "accepts example_library live_batch"
proof (rule run_accepts)
  from example_run process_Inr[of 0 "[live_batch]" example_library 1 "[live_batch, live_batch_out]"]
  show "run (body example_library) live_batch = Inr live_batch_out" by simp
  show "wf_df live_batch" by (rule live_batch_wf)
qed




lemma other_batch_dates: "iso_to_datetime [StrV ''2019-12-30'', NaNV, StrV ''2016-01-01''] = Inr [TimestampV 2019 12 30, NaTV, TimestampV 2016 1 1]"
  by (simp add: iso_to_datetime_def parse_iso_date_def digit_val_def days_in_month_def)

lemma other_run:
  "process_live_data_and_cluster example_library 1 [live_batch, other_batch] =
     (Inr 2, [live_batch, other_batch, other_batch_out])"
  by (simp add: process_live_data_and_cluster_def df_copy_def body_def other_batch_def other_batch_out_def
     example_library_def stmt_to_datetime_def stmt_satellite_def stmt_round_def stmt_month_def
     stmt_week_def stmt_drop_def stmt_fit_def stmt_binary_def getitem_def getitem2_def setitem_def drop_columns_def
     get_column_def other_batch_dates series_replace_def satellite_names_def series_round_def np_round_def rint_def
     dt_month_def dt_weekofyear_def dt_values_def month_def weekofyear_def isoweek1monday_def ymd2ord_def days_before_year_def
     days_before_month_def days_in_month_def is_leap_def colocated_fit_def clusterer_def series_apply_def binary_label_def
     upto.simps[of 1])

subsection \<open>The dense batch\<close>

lemma sequence_e_append:
  "sequence_e (ms @ ns) =
     (case sequence_e ms of
        Inl e \<Rightarrow> Inl e
      | Inr xs \<Rightarrow> (case sequence_e ns of Inl e \<Rightarrow> Inl e | Inr ys \<Rightarrow> Inr (xs @ ys)))"
  by (induction ms) (auto split: sum.splits)

lemma sequence_e_replicate: "sequence_e (replicate n (Inr x)) = Inr (replicate n x)"
  by (induction n) simp_all

lemma count_list_replicate: "count_list (replicate n x) y = (if x = y then n else 0)"
  by (induction n) auto

lemma iso_cell_example: "iso_cell (StrV ''2020-01-05'') = Inr (TimestampV 2020 1 5)"
  by (simp add: parse_iso_date_def digit_val_def days_in_month_def)

lemma dense_wf: "wf_df dense_batch"
  by (simp add: wf_df_def dense_batch_def)

lemma dense_dates:
  "parsed_dates example_library dense_batch = Inr (replicate 51 (TimestampV 2020 1 5))"
  by (simp add: parsed_dates_def getitem_def get_column_def dense_batch_def example_library_def
      iso_to_datetime_def iso_cell_example sequence_e_replicate del: iso_cell.simps)

lemma dense_coordinates:
  "rounded_coordinates dense_batch =
     Inr (replicate 50 (FloatV 34.57, FloatV (- 118.12)) @ [(FloatV 19.4, FloatV (- 155.28))])"
  by (simp add: rounded_coordinates_def getitem_def get_column_def dense_batch_def series_round_def
      sequence_e_append sequence_e_replicate np_round_def rint_def)

lemma dense_labels:
  "hdbscan_fit example_library clusterer
     (replicate 50 (FloatV 34.57, FloatV (- 118.12)) @ [(FloatV 19.4, FloatV (- 155.28))]) =
   Inr (replicate 50 0 @ [- 1])"
  by (simp add: example_library_def colocated_fit_def clusterer_def count_list_replicate)

lemma dense_accepts: "accepts example_library dense_batch"
  unfolding accepts_def
proof (intro conjI)
  show "wf_df dense_batch" by (rule dense_wf)
  show "get_column dense_batch ''satellite'' \<noteq> None"
    by (simp add: get_column_def dense_batch_def)
  show "get_column dense_batch ''acq_time'' \<noteq> None"
    by (simp add: get_column_def dense_batch_def)
  show "case parsed_dates example_library dense_batch of
          Inl e \<Rightarrow> False
        | Inr dts \<Rightarrow> length dts = length (df_index dense_batch) \<and> list_all is_datetime dts"
    by (simp only: dense_dates sum.case) (simp add: dense_batch_def list_all_iff)
  show "case bind_e (rounded_coordinates dense_batch) (hdbscan_fit example_library clusterer) of
          Inl e \<Rightarrow> False
        | Inr labels \<Rightarrow> length labels = length (df_index dense_batch)"
    by (simp only: dense_coordinates bind_e_simps dense_labels sum.case)
       (simp add: dense_batch_def)
qed

section \<open>Properties of the transform\<close>

text \<open>
  C1. Whenever the call returns, the \<open>clusters\<close> column of the returned frame (the
  spec's \<open>cluster_membership\<close>) is, row by row, the test "label is not \<open>-1\<close>"
  applied to the labels the clustering step returned for the rounded coordinates of the
  input. So the column holds one boolean per row: false exactly at the noise rows.
\<close>

theorem cluster_membership_is_label_not_noise:
  assumes "original_df < length h"
    and "process_live_data_and_cluster lib original_df h = (Inr r, h')"
  shows "\<exists>pts labels.
           rounded_coordinates (h ! original_df) = Inr pts \<and>
           hdbscan_fit lib clusterer pts = Inr labels \<and>
           length labels = length (df_index (h' ! r)) \<and>
           get_column (h' ! r) ''clusters'' = Some (map (\<lambda>l. BoolV (l \<noteq> - 1)) labels)"
proof -
  from assms obtain out where "run (body lib) (h ! original_df) = Inr out" "h' ! r = out"
    by (auto simp: process_Inr)
  with run_clusters show ?thesis by blast
qed

theorem cluster_membership_is_label_not_noise_witness:
  "0 < length [dense_batch] \<and>
   (\<exists>out. process_live_data_and_cluster example_library 0 [dense_batch] =
            (Inr 1, [dense_batch, out]) \<and>
          get_column out ''clusters'' = Some (replicate 50 (BoolV True) @ [BoolV False]))"
proof -
  have len: "0 < length [dense_batch]" by simp
  from accepts_process[OF len] dense_accepts obtain out where
    p: "process_live_data_and_cluster example_library 0 [dense_batch] = (Inr 1, [dense_batch, out])"
    by auto
  from cluster_membership_is_label_not_noise[OF len p] obtain pts labels where
    a: "rounded_coordinates ([dense_batch] ! 0) = Inr pts"
       "hdbscan_fit example_library clusterer pts = Inr labels"
       "get_column ([dense_batch, out] ! 1) ''clusters'' = Some (map (\<lambda>l. BoolV (l \<noteq> - 1)) labels)"
    by blast
  from a(1) have "rounded_coordinates dense_batch = Inr pts" by simp
  with dense_coordinates have
    "pts = replicate 50 (FloatV 34.57, FloatV (- 118.12)) @ [(FloatV 19.4, FloatV (- 155.28))]"
    by (simp only: sum.inject)
  with a(2) dense_labels have "labels = replicate 50 0 @ [- 1]"
    by (simp only: sum.inject)
  with a(3) have "get_column out ''clusters'' = Some (replicate 50 (BoolV True) @ [BoolV False])"
    by simp
  with len p show ?thesis by blast
qed




text \<open>
  C3. Two calls, on frames in any two heaps, whose inputs have the same latitude and the same
  longitude column and that both return, return the same \<open>clusters\<close> column, whatever
  the other columns and the other frames of the heaps hold: the clustering step is given
  the rounded coordinates of the current batch and nothing else.
\<close>

theorem membership_depends_on_coordinates_only:
  assumes "o1 < length h1" and "o2 < length h2"
    and "get_column (h1 ! o1) ''latitude'' = get_column (h2 ! o2) ''latitude''"
    and "get_column (h1 ! o1) ''longitude'' = get_column (h2 ! o2) ''longitude''"
    and "process_live_data_and_cluster lib o1 h1 = (Inr r1, h1')"
    and "process_live_data_and_cluster lib o2 h2 = (Inr r2, h2')"
  shows "get_column (h1' ! r1) ''clusters'' = get_column (h2' ! r2) ''clusters''"
proof -
  from assms(1,5) obtain out1 where 1: "run (body lib) (h1 ! o1) = Inr out1" "h1' ! r1 = out1"
    by (auto simp: process_Inr)
  from assms(2,6) obtain out2 where 2: "run (body lib) (h2 ! o2) = Inr out2" "h2' ! r2 = out2"
    by (auto simp: process_Inr)
  from run_clusters[OF 1(1)] obtain pts1 labels1 where
    a: "rounded_coordinates (h1 ! o1) = Inr pts1" "hdbscan_fit lib clusterer pts1 = Inr labels1"
       "get_column out1 ''clusters'' = Some (map (\<lambda>l. BoolV (l \<noteq> - 1)) labels1)"
    by blast
  from run_clusters[OF 2(1)] obtain pts2 labels2 where
    b: "rounded_coordinates (h2 ! o2) = Inr pts2" "hdbscan_fit lib clusterer pts2 = Inr labels2"
       "get_column out2 ''clusters'' = Some (map (\<lambda>l. BoolV (l \<noteq> - 1)) labels2)"
    by blast
  from rounded_coordinates_cong[OF assms(3,4)] a(1) b(1) have "pts1 = pts2" by simp
  with a(2) b(2) have "labels1 = labels2" by simp
  with a(3) b(3) 1(2) 2(2) show ?thesis by simp
qed

theorem membership_depends_on_coordinates_only_witness:
  "0 < length [live_batch] \<and> 1 < length [live_batch, other_batch] \<and>
   get_column ([live_batch] ! 0) ''latitude'' = get_column ([live_batch, other_batch] ! 1) ''latitude'' \<and>
   get_column ([live_batch] ! 0) ''longitude'' = get_column ([live_batch, other_batch] ! 1) ''longitude'' \<and>
   get_column ([live_batch] ! 0) ''satellite'' \<noteq> get_column ([live_batch, other_batch] ! 1) ''satellite'' \<and>
   process_live_data_and_cluster example_library 0 [live_batch] =
     (Inr 1, [live_batch, live_batch_out]) \<and>
   process_live_data_and_cluster example_library 1 [live_batch, other_batch] =
     (Inr 2, [live_batch, other_batch, other_batch_out]) \<and>
   get_column ([live_batch, live_batch_out] ! 1) ''clusters'' =
     get_column ([live_batch, other_batch, other_batch_out] ! 2) ''clusters''"
proof -
  have l1: "0 < length [live_batch]" and l2: "1 < length [live_batch, other_batch]" by simp_all
  have lat: "get_column ([live_batch] ! 0) ''latitude'' = get_column ([live_batch, other_batch] ! 1) ''latitude''"
    by (simp add: get_column_def live_batch_def other_batch_def)
  have lon: "get_column ([live_batch] ! 0) ''longitude'' = get_column ([live_batch, other_batch] ! 1) ''longitude''"
    by (simp add: get_column_def live_batch_def other_batch_def)
  have sat: "get_column ([live_batch] ! 0) ''satellite'' \<noteq> get_column ([live_batch, other_batch] ! 1) ''satellite''"
    by (simp add: get_column_def live_batch_def other_batch_def)
  from membership_depends_on_coordinates_only[OF l1 l2 lat lon example_run other_run]
    l1 l2 lat lon sat example_run other_run
  show ?thesis by blast
qed

text \<open>
  C5. On every frame the library calls accept, the call returns, and in the returned
  \<open>satellite\<close> column each row holds \<open>Terra\<close> where the input held \<open>T\<close>,
  \<open>Aqua\<close> where it held \<open>A\<close>, and the input's own value otherwise. No value of
  the column makes the call fail.
\<close>

theorem satellite_normalised:
  assumes "original_df < length h"
    and "accepts lib (h ! original_df)"
    and "get_column (h ! original_df) ''satellite'' = Some sats"
  shows "\<exists>out sats'.
           process_live_data_and_cluster lib original_df h = (Inr (length h), h @ [out]) \<and>
           get_column out ''satellite'' = Some sats' \<and>
           length sats' = length sats \<and>
           (\<forall>i < length sats.
              sats' ! i =
                (if sats ! i = StrV ''T'' then StrV ''Terra''
                 else if sats ! i = StrV ''A'' then StrV ''Aqua''
                 else sats ! i))"
proof -
  from accepts_process[OF assms(1,2)] obtain out where
    run: "run (body lib) (h ! original_df) = Inr out" and
    p: "process_live_data_and_cluster lib original_df h = (Inr (length h), h @ [out])"
    by blast
  have "length (series_replace satellite_names sats) = length sats"
    by (rule series_replace_length)
  with p run_satellite[OF run assms(3)] series_replace_nth show ?thesis
    by blast
qed

theorem satellite_normalised_witness:
  "0 < length [live_batch] \<and> accepts example_library ([live_batch] ! 0) \<and>
   get_column ([live_batch] ! 0) ''satellite'' = Some [StrV ''T'', StrV ''A'', StrV ''N''] \<and>
   (\<exists>out sats'.
      process_live_data_and_cluster example_library 0 [live_batch] =
        (Inr (length [live_batch]), [live_batch] @ [out]) \<and>
      get_column out ''satellite'' = Some sats' \<and>
      length sats' = length [StrV ''T'', StrV ''A'', StrV ''N''] \<and>
      (\<forall>i < length [StrV ''T'', StrV ''A'', StrV ''N''].
         sats' ! i =
           (if [StrV ''T'', StrV ''A'', StrV ''N''] ! i = StrV ''T'' then StrV ''Terra''
            else if [StrV ''T'', StrV ''A'', StrV ''N''] ! i = StrV ''A'' then StrV ''Aqua''
            else [StrV ''T'', StrV ''A'', StrV ''N''] ! i)))"
proof -
  have len: "0 < length [live_batch]" by simp
  have acc: "accepts example_library ([live_batch] ! 0)"
    using example_accepts by simp
  have sat: "get_column ([live_batch] ! 0) ''satellite'' = Some [StrV ''T'', StrV ''A'', StrV ''N'']"
    by (simp add: get_column_def live_batch_def)
  from satellite_normalised[OF len acc sat] len acc sat
  show ?thesis by blast
qed

text \<open>
  C6. A row with latitude 34.567, longitude -118.123, acq_date 2020-01-05, acq_time 1200 and
  satellite T, in any batch the call returns on and whose date the parser reads as
  5 January 2020, comes out with satellite Terra, month 1 and week 1 (integers, or
  floating-point numbers when a date of the batch is missing) and the coordinates rounded
  to 34.57 and -118.12; the returned frame has no acq_date and no acq_time column.
\<close>

theorem schema_scenario:
  assumes "original_df < length h"
    and "process_live_data_and_cluster lib original_df h = (Inr r, h')"
    and "cell_at (h ! original_df) ''latitude'' i = Some (FloatV 34.567)"
    and "cell_at (h ! original_df) ''longitude'' i = Some (FloatV (- 118.123))"
    and "cell_at (h ! original_df) ''acq_date'' i = Some (StrV ''2020-01-05'')"
    and "cell_at (h ! original_df) ''acq_time'' i = Some (StrV ''1200'')"
    and "cell_at (h ! original_df) ''satellite'' i = Some (StrV ''T'')"
    and "parsed_dates lib (h ! original_df) = Inr dts"
    and "dts ! i = TimestampV 2020 1 5"
  shows "cell_at (h' ! r) ''latitude'' i = Some (FloatV 34.57) \<and>
         cell_at (h' ! r) ''longitude'' i = Some (FloatV (- 118.12)) \<and>
         cell_at (h' ! r) ''satellite'' i = Some (StrV ''Terra'') \<and>
         cell_at (h' ! r) ''month'' i = Some (if NaTV \<in> set dts then FloatV 1 else IntV 1) \<and>
         cell_at (h' ! r) ''week'' i = Some (if NaTV \<in> set dts then FloatV 1 else IntV 1) \<and>
         get_column (h' ! r) ''acq_date'' = None \<and>
         get_column (h' ! r) ''acq_time'' = None"
proof -
  from assms(1,2) obtain out where run: "run (body lib) (h ! original_df) = Inr out"
    and out: "h' ! r = out"
    by (auto simp: process_Inr)
  let ?d = "h ! original_df"
  from run show ?thesis
  proof (rule body_Inr)
    fix dates dts0 sats lats lats' lons lons' :: column and labels :: "int list"
    assume d: "get_column ?d ''acq_date'' = Some dates" "to_datetime lib dates = Inr dts0"
      "length dts0 = length (df_index ?d)"
      and s: "get_column ?d ''satellite'' = Some sats" "length sats = length (df_index ?d)"
      and la: "get_column ?d ''latitude'' = Some lats" "series_round 2 lats = Inr lats'"
      and lo: "get_column ?d ''longitude'' = Some lons" "series_round 2 lons = Inr lons'"
      and cols: "get_column out =
       (get_column ?d)(''satellite'' \<mapsto> series_replace satellite_names sats,
          ''latitude'' \<mapsto> lats', ''longitude'' \<mapsto> lons',
          ''month'' \<mapsto> dt_values month dts0, ''week'' \<mapsto> dt_values weekofyear dts0,
          ''acq_date'' := None, ''acq_time'' := None,
          ''clusters'' \<mapsto> map (\<lambda>l. BoolV (l \<noteq> - 1)) labels)"
    from assms(8) d have dts: "dts0 = dts"
      by (simp add: parsed_dates_def getitem_def)
    from assms(7) s have i: "i < length sats" "sats ! i = StrV ''T''"
      by (auto simp: cell_at_Some)
    have w: "weekofyear 2020 1 5 = 1"
      by (simp add: weekofyear_def isoweek1monday_def ymd2ord_def days_before_year_def
          days_before_month_def days_in_month_def is_leap_def)
    from assms(3) la(1) have ila: "i < length lats" "lats ! i = FloatV 34.567"
      by (auto simp: cell_at_Some)
    from assms(4) lo(1) have ilo: "i < length lons" "lons ! i = FloatV (- 118.123)"
      by (auto simp: cell_at_Some)
    from series_round_nth[OF la(2) ila(1)] ila(2) have rla: "lats' ! i = FloatV 34.57"
      by (simp add: np_round_def rint_def)
    from series_round_nth[OF lo(2) ilo(1)] ilo(2) have rlo: "lons' ! i = FloatV (- 118.12)"
      by (simp add: np_round_def rint_def)
    have "cell_at out ''latitude'' i = Some (FloatV 34.57)"
      using ila(1) rla series_round_length[OF la(2)] by (simp add: cell_at_def cols)
    moreover have "cell_at out ''longitude'' i = Some (FloatV (- 118.12))"
      using ilo(1) rlo series_round_length[OF lo(2)] by (simp add: cell_at_def cols)
    moreover have "cell_at out ''satellite'' i = Some (StrV ''Terra'')"
      using i by (simp add: cell_at_def cols series_replace_nth series_replace_length)
    moreover have "cell_at out ''month'' i = Some (if NaTV \<in> set dts then FloatV 1 else IntV 1)"
      using i s d dt_values_nth[of i dts 2020 1 5 month] assms(9)
      by (simp add: cell_at_def cols dts month_def)
    moreover have "cell_at out ''week'' i = Some (if NaTV \<in> set dts then FloatV 1 else IntV 1)"
      using i s d dt_values_nth[of i dts 2020 1 5 weekofyear] assms(9) w
      by (simp add: cell_at_def cols dts)
    moreover have "get_column out ''acq_date'' = None" "get_column out ''acq_time'' = None"
      by (simp_all add: cols)
    ultimately show ?thesis by (simp add: out)
  qed
qed

theorem schema_scenario_witness:
  "0 < length [live_batch] \<and>
   process_live_data_and_cluster example_library 0 [live_batch] =
     (Inr 1, [live_batch, live_batch_out]) \<and>
   cell_at ([live_batch] ! 0) ''latitude'' 0 = Some (FloatV 34.567) \<and>
   cell_at ([live_batch] ! 0) ''longitude'' 0 = Some (FloatV (- 118.123)) \<and>
   cell_at ([live_batch] ! 0) ''acq_date'' 0 = Some (StrV ''2020-01-05'') \<and>
   cell_at ([live_batch] ! 0) ''acq_time'' 0 = Some (StrV ''1200'') \<and>
   cell_at ([live_batch] ! 0) ''satellite'' 0 = Some (StrV ''T'') \<and>
   parsed_dates example_library ([live_batch] ! 0) =
     Inr [TimestampV 2020 1 5, TimestampV 2020 1 5, TimestampV 2021 1 3] \<and>
   [TimestampV 2020 1 5, TimestampV 2020 1 5, TimestampV 2021 1 3] ! 0 = TimestampV 2020 1 5 \<and>
   cell_at ([live_batch, live_batch_out] ! 1) ''latitude'' 0 = Some (FloatV 34.57) \<and>
   cell_at ([live_batch, live_batch_out] ! 1) ''longitude'' 0 = Some (FloatV (- 118.12)) \<and>
   cell_at ([live_batch, live_batch_out] ! 1) ''satellite'' 0 = Some (StrV ''Terra'') \<and>
   cell_at ([live_batch, live_batch_out] ! 1) ''month'' 0 = Some (IntV 1) \<and>
   cell_at ([live_batch, live_batch_out] ! 1) ''week'' 0 = Some (IntV 1) \<and>
   get_column ([live_batch, live_batch_out] ! 1) ''acq_date'' = None \<and>
   get_column ([live_batch, live_batch_out] ! 1) ''acq_time'' = None"
proof -
  have len: "0 < length [live_batch]" by simp
  have lat: "cell_at ([live_batch] ! 0) ''latitude'' 0 = Some (FloatV 34.567)"
    by (simp add: cell_at_def get_column_def live_batch_def)
  have lon: "cell_at ([live_batch] ! 0) ''longitude'' 0 = Some (FloatV (- 118.123))"
    by (simp add: cell_at_def get_column_def live_batch_def)
  have dat: "cell_at ([live_batch] ! 0) ''acq_date'' 0 = Some (StrV ''2020-01-05'')"
    by (simp add: cell_at_def get_column_def live_batch_def)
  have tim: "cell_at ([live_batch] ! 0) ''acq_time'' 0 = Some (StrV ''1200'')"
    by (simp add: cell_at_def get_column_def live_batch_def)
  have sat: "cell_at ([live_batch] ! 0) ''satellite'' 0 = Some (StrV ''T'')"
    by (simp add: cell_at_def get_column_def live_batch_def)
  have par: "parsed_dates example_library ([live_batch] ! 0) =
      Inr [TimestampV 2020 1 5, TimestampV 2020 1 5, TimestampV 2021 1 3]"
    by (simp add: parsed_dates_def getitem_def get_column_def live_batch_def example_library_def live_batch_dates)
  have row: "[TimestampV 2020 1 5, TimestampV 2020 1 5, TimestampV 2021 1 3] ! 0 = TimestampV 2020 1 5"
    by simp
  have nat: "NaTV \<notin> set [TimestampV 2020 1 5, TimestampV 2020 1 5, TimestampV 2021 1 3]"
    by simp
  note out = schema_scenario[OF len example_run lat lon dat tim sat par row]
  from out nat have
    "cell_at ([live_batch, live_batch_out] ! 1) ''month'' 0 = Some (IntV 1)"
    "cell_at ([live_batch, live_batch_out] ! 1) ''week'' 0 = Some (IntV 1)"
    by (simp_all only: if_False)
  with out len example_run lat lon dat tim sat par row
  show ?thesis by blast
qed

text \<open>
  C8. Rounding to two decimals is idempotent: on a value, on a column (including the case
  where the column cannot be rounded), and as the statement of the function that rounds a
  coordinate column in place. With binary64 rounding after each operation it is idempotent
  on every value of magnitude up to \<open>10 ^ 9\<close>, which covers all coordinates.
\<close>

theorem rounding_idempotent:
  "np_round 2 (np_round 2 x) = np_round 2 x \<and>
   bind_e (series_round 2 c) (series_round 2) = series_round 2 c \<and>
   bind_e (stmt_round name d) (stmt_round name) = stmt_round name d \<and>
   (\<bar>x\<bar> \<le> 10 ^ 9 \<longrightarrow> np_round64 2 (np_round64 2 x) = np_round64 2 x)"
proof -
  have "bind_e (series_round 2 c) (series_round 2) = series_round 2 c"
    by (cases "series_round 2 c") (simp_all add: series_round_idem)
  then show ?thesis by (simp add: np_round_idem stmt_round_twice np_round64_idem)
qed

theorem rounding_idempotent_witness:
  "np_round 2 34.567 = 34.57 \<and> np_round 2 (np_round 2 34.567) = 34.57 \<and>
   series_round 2 [FloatV 34.567, NaNV, IntV 19] = Inr [FloatV 34.57, NaNV, IntV 19] \<and>
   bind_e (series_round 2 [FloatV 34.567, NaNV, IntV 19]) (series_round 2) =
     Inr [FloatV 34.57, NaNV, IntV 19] \<and>
   \<bar>34.567 :: real\<bar> \<le> 10 ^ 9 \<and>
   np_round64 2 (np_round64 2 34.567) = np_round64 2 34.567"
proof -
  have r: "np_round 2 34.567 = 34.57" by (simp add: np_round_def rint_def)
  have s: "series_round 2 [FloatV 34.567, NaNV, IntV 19] = Inr [FloatV 34.57, NaNV, IntV 19]"
    by (simp add: series_round_def np_round_def rint_def)
  have bound: "\<bar>34.567 :: real\<bar> \<le> 10 ^ 9" by simp
  note idem = rounding_idempotent[where x = "34.567" and c = "[FloatV 34.567, NaNV, IntV 19]"]
  from idem have "np_round 2 (np_round 2 34.567) = np_round 2 34.567" by (rule conjunct1)
  with r have a: "np_round 2 (np_round 2 34.567) = 34.57" by (simp only:)
  from idem have "bind_e (series_round 2 [FloatV 34.567, NaNV, IntV 19]) (series_round 2) =
      series_round 2 [FloatV 34.567, NaNV, IntV 19]"
    by blast
  with s have b: "bind_e (series_round 2 [FloatV 34.567, NaNV, IntV 19]) (series_round 2) =
      Inr [FloatV 34.57, NaNV, IntV 19]"
    by (simp only:)
  from idem bound have c: "np_round64 2 (np_round64 2 34.567) = np_round64 2 34.567"
    by blast
  from r a s b bound c show ?thesis by blast
qed

text \<open>
  C9. Whatever the outcome of the call, every frame that was in the heap before it, the
  input among them, is unchanged afterwards; and when the call returns, each of the columns
  daynight, brightness, track, scan, bright_t31, frp and confidence is in the returned frame
  exactly as it is in the input.
\<close>

theorem no_side_effects:
  assumes "original_df < length h"
    and "process_live_data_and_cluster lib original_df h = (res, h')"
  shows "take (length h) h' = h \<and> h' ! original_df = h ! original_df \<and>
         (\<forall>r. res = Inr r \<longrightarrow>
            (\<forall>name \<in> set pass_through.
               get_column (h' ! r) name = get_column (h ! original_df) name))"
proof -
  from process_heap[OF assms(2)] have t: "take (length h) h' = h" by simp
  then have "take (length h) h' ! original_df = h ! original_df" by simp
  with assms(1) have same: "h' ! original_df = h ! original_df" by simp
  have "get_column (h' ! r) name = get_column (h ! original_df) name"
    if "res = Inr r" "name \<in> set pass_through" for r name
  proof -
    from that(1) assms obtain out where run: "run (body lib) (h ! original_df) = Inr out"
      and out: "h' ! r = out"
      by (auto simp: process_Inr)
    from that(2) have "name \<notin> {''acq_date'', ''acq_time'', ''satellite'', ''latitude'',
        ''longitude'', ''month'', ''week'', ''clusters''}"
      by (auto simp: pass_through_def)
    from run_pass_through[OF run this] out show ?thesis by simp
  qed
  with t same show ?thesis by blast
qed

theorem no_side_effects_witness:
  "0 < length [live_batch] \<and>
   process_live_data_and_cluster example_library 0 [live_batch] =
     (Inr 1, [live_batch, live_batch_out]) \<and>
   take (length [live_batch]) [live_batch, live_batch_out] = [live_batch] \<and>
   [live_batch, live_batch_out] ! 0 = [live_batch] ! 0 \<and>
   get_column ([live_batch, live_batch_out] ! 1) ''daynight'' = get_column ([live_batch] ! 0) ''daynight'' \<and>
   get_column ([live_batch, live_batch_out] ! 1) ''brightness'' = get_column ([live_batch] ! 0) ''brightness'' \<and>
   get_column ([live_batch, live_batch_out] ! 1) ''track'' = get_column ([live_batch] ! 0) ''track'' \<and>
   get_column ([live_batch, live_batch_out] ! 1) ''scan'' = get_column ([live_batch] ! 0) ''scan'' \<and>
   get_column ([live_batch, live_batch_out] ! 1) ''bright_t31'' = get_column ([live_batch] ! 0) ''bright_t31'' \<and>
   get_column ([live_batch, live_batch_out] ! 1) ''frp'' = get_column ([live_batch] ! 0) ''frp'' \<and>
   get_column ([live_batch, live_batch_out] ! 1) ''confidence'' = get_column ([live_batch] ! 0) ''confidence'' \<and>
   get_column live_batch ''brightness'' = Some [FloatV 310.5, FloatV 325.1, FloatV 301.2]"
proof -
  have len: "0 < length [live_batch]" by simp
  have b: "get_column live_batch ''brightness'' = Some [FloatV 310.5, FloatV 325.1, FloatV 301.2]"
    by (simp add: get_column_def live_batch_def)
  from no_side_effects[OF len example_run]
  have heap: "take (length [live_batch]) [live_batch, live_batch_out] = [live_batch]"
      "[live_batch, live_batch_out] ! 0 = [live_batch] ! 0"
    and cols: "\<forall>name \<in> set pass_through.
      get_column ([live_batch, live_batch_out] ! 1) name = get_column ([live_batch] ! 0) name"
    by blast+
  from cols have
    "get_column ([live_batch, live_batch_out] ! 1) ''daynight'' = get_column ([live_batch] ! 0) ''daynight''"
    "get_column ([live_batch, live_batch_out] ! 1) ''brightness'' = get_column ([live_batch] ! 0) ''brightness''"
    "get_column ([live_batch, live_batch_out] ! 1) ''track'' = get_column ([live_batch] ! 0) ''track''"
    "get_column ([live_batch, live_batch_out] ! 1) ''scan'' = get_column ([live_batch] ! 0) ''scan''"
    "get_column ([live_batch, live_batch_out] ! 1) ''bright_t31'' = get_column ([live_batch] ! 0) ''bright_t31''"
    "get_column ([live_batch, live_batch_out] ! 1) ''frp'' = get_column ([live_batch] ! 0) ''frp''"
    "get_column ([live_batch, live_batch_out] ! 1) ''confidence'' = get_column ([live_batch] ! 0) ''confidence''"
    by (simp_all add: pass_through_def)
  with len example_run heap b show ?thesis by blast
qed

text \<open>
  C10. When the call returns, the returned frame has the row index of the input, label for
  label in the same order, and if every column of the input is as long as the index, so is
  every column of the returned frame: rows are neither added, dropped nor reordered.
\<close>

theorem rows_preserved:
  assumes "original_df < length h"
    and "process_live_data_and_cluster lib original_df h = (Inr r, h')"
  shows "df_index (h' ! r) = df_index (h ! original_df) \<and>
         (wf_df (h ! original_df) \<longrightarrow> wf_df (h' ! r))"
proof -
  from assms obtain out where run: "run (body lib) (h ! original_df) = Inr out"
    and out: "h' ! r = out"
    by (auto simp: process_Inr)
  from run have "df_index out = df_index (h ! original_df)" by (rule body_Inr)
  moreover have "wf_df out" if "wf_df (h ! original_df)"
    using that run by (rule wf_df_run[OF _ subset_refl])
  ultimately show ?thesis by (simp add: out)
qed

theorem rows_preserved_witness:
  "0 < length [live_batch] \<and>
   process_live_data_and_cluster example_library 0 [live_batch] =
     (Inr 1, [live_batch, live_batch_out]) \<and>
   wf_df ([live_batch] ! 0) \<and>
   df_index ([live_batch, live_batch_out] ! 1) = df_index ([live_batch] ! 0) \<and>
   df_index ([live_batch] ! 0) = [0, 1, 2] \<and>
   wf_df ([live_batch, live_batch_out] ! 1)"
proof -
  have len: "0 < length [live_batch]" by simp
  have wf: "wf_df ([live_batch] ! 0)" using live_batch_wf by simp
  have ix: "df_index ([live_batch] ! 0) = [0, 1, 2]" by (simp add: live_batch_def)
  from rows_preserved[OF len example_run] len example_run wf ix
  show ?thesis by blast
qed

end
